theory Spec2Isabelle
  imports Complex_Main "HOL-Library.Multiset"
begin

section \<open>Numbers\<close>

text \<open>
  The study algorithm computes on JavaScript numbers. They are modelled as exact reals:
  every constant of the source (0.4, 0.35, 86400000, ...) is the real of that value, and
  rounding error of the binary representation is left out. \<open>Math.round\<close> rounds to the
  nearest integer, a tie going up.
\<close>

definition js_round :: "real \<Rightarrow> int" where
  "js_round x = \<lfloor>x + 1 / 2\<rfloor>"

section \<open>Exam readiness (\<open>src/lib/study-algorithm.ts\<close>, \<open>calculateExamReadiness\<close>)\<close>

datatype readiness_status = not_ready | improving | almost_ready | exam_ready

record ReadinessResult =
  status :: readiness_status
  percentage :: int
  message :: string

definition normalizedStreak :: "real \<Rightarrow> real" where
  "normalizedStreak consistencyStreak = min (consistencyStreak / 14) 1"

definition normalizedTime :: "real \<Rightarrow> real" where
  "normalizedTime daysUntilExam = (if daysUntilExam > 0 then min (daysUntilExam / 30) 1 else 0)"

definition readinessScore :: "real \<Rightarrow> real \<Rightarrow> real \<Rightarrow> real \<Rightarrow> real" where
  "readinessScore completionPercentage averageConfidence consistencyStreak daysUntilExam =
     (completionPercentage / 100) * (4 / 10) +
     (averageConfidence / 5) * (35 / 100) +
     normalizedStreak consistencyStreak * (15 / 100) +
     normalizedTime daysUntilExam * (1 / 10)"

definition calculateExamReadiness :: "real \<Rightarrow> real \<Rightarrow> real \<Rightarrow> real \<Rightarrow> ReadinessResult" where
  "calculateExamReadiness completionPercentage averageConfidence consistencyStreak daysUntilExam =
     (let pct = js_round
            (readinessScore completionPercentage averageConfidence consistencyStreak daysUntilExam
               * 100)
      in if pct \<ge> 80 then
           \<lparr>status = exam_ready, percentage = pct,
            message = ''You're well prepared! Keep up the consistency.''\<rparr>
         else if pct \<ge> 60 then
           \<lparr>status = almost_ready, percentage = pct,
            message = ''Great progress! Focus on weak areas to get exam-ready.''\<rparr>
         else if pct \<ge> 35 then
           \<lparr>status = improving, percentage = pct,
            message = ''You're making progress. Stay consistent with your schedule.''\<rparr>
         else
           \<lparr>status = not_ready, percentage = pct,
            message = ''Let's build your study momentum. Start with high-priority topics.''\<rparr>)"


section \<open>Data model (\<open>src/lib/study-algorithm.ts\<close>)\<close>

text \<open>
  Timestamps (\<open>last_studied_at\<close>, \<open>next_revision_at\<close>, \<open>last_revision_date\<close>) are ISO
  strings or null in the source and are only ever used through
  \<open>new Date(s).getTime()\<close>; the model stores that number of milliseconds, \<open>None\<close> for
  null or undefined. The clock (\<open>Date.now()\<close>, \<open>new Date()\<close>) is read inside the
  functions; the model takes its reading as the first argument \<open>now\<close>.

  Record fields share one name space, so \<open>id\<close> and \<open>name\<close> are \<open>tid\<close>, \<open>tname\<close> in a
  topic and \<open>sid\<close>, \<open>sname\<close> in a subject, \<open>strength\<close> is \<open>strength_of\<close> and the \<open>type\<close>
  of a session is \<open>stype\<close>. The optional \<open>topics\<close> of a subject is an option.
\<close>

datatype strength = weak | average | strong

datatype session_type = learning | revision | recall

record Topic =
  tid :: string
  tname :: string
  confidence_level :: real
  priority_score :: real
  estimated_hours :: real
  completed_hours :: real
  last_studied_at :: "int option"
  next_revision_at :: "int option"
  revision_count :: int
  is_completed :: bool
  last_revision_date :: "int option"
  revision_confidence_delta :: "real option"

record Subject =
  sid :: string
  sname :: string
  strength_of :: strength
  color :: string
  topics :: "Topic list option"

record ScheduleSession =
  topicId :: string
  topicName :: string
  subjectName :: string
  subjectColor :: string
  stype :: session_type
  durationMinutes :: real
  priorityScore :: int
  reason :: string

record PriorityResult =
  score :: int
  reasons :: "string list"

section \<open>Topic priority (\<open>calculateTopicPriority\<close>)\<close>

definition STRENGTH_SCORES :: "strength \<Rightarrow> real" where
  "STRENGTH_SCORES s = (case s of weak \<Rightarrow> 100 | average \<Rightarrow> 60 | strong \<Rightarrow> 30)"

definition daysSince :: "int \<Rightarrow> int \<Rightarrow> int" where
  "daysSince now t = (now - t) div (1000 * 60 * 60 * 24)"

definition urgencyOf :: "real \<Rightarrow> real" where
  "urgencyOf daysUntilExam =
     (if daysUntilExam \<le> 7 then 100 else if daysUntilExam \<le> 30 then 80
      else if daysUntilExam \<le> 60 then 50 else 30)"

definition recencyOf :: "int \<Rightarrow> int option \<Rightarrow> real" where
  "recencyOf now lastStudied =
     (case lastStudied of
        None \<Rightarrow> 100
      | Some t \<Rightarrow>
          (let daysSinceStudy = daysSince now t
           in if daysSinceStudy \<ge> 14 then 100 else if daysSinceStudy \<ge> 7 then 75
              else if daysSinceStudy \<ge> 3 then 50 else 25))"

definition completionRate :: "Topic \<Rightarrow> real" where
  "completionRate topic =
     (if estimated_hours topic > 0 then completed_hours topic / estimated_hours topic else 0)"

definition totalScore :: "int \<Rightarrow> Topic \<Rightarrow> strength \<Rightarrow> real \<Rightarrow> real" where
  "totalScore now topic subjectStrength daysUntilExam =
     (STRENGTH_SCORES subjectStrength / 100) * 30 +
     (urgencyOf daysUntilExam / 100) * 25 +
     ((((5 - confidence_level topic) / 4) * 100) / 100) * 25 +
     (recencyOf now (last_studied_at topic) / 100) * 15 +
     (((1 - completionRate topic) * 100) / 100) * 5"

definition priorityReasons :: "int \<Rightarrow> Topic \<Rightarrow> strength \<Rightarrow> real \<Rightarrow> string list" where
  "priorityReasons now topic subjectStrength daysUntilExam =
     (if subjectStrength = weak then [''Weak subject needs attention''] else []) @
     (if daysUntilExam \<le> 7 then [''Exam is less than a week away!'']
      else if daysUntilExam \<le> 30 then [''Exam approaching soon''] else []) @
     (if confidence_level topic \<le> 2 then [''Low confidence - needs more practice''] else []) @
     (case last_studied_at topic of
        None \<Rightarrow> [''Never studied before'']
      | Some t \<Rightarrow> (if daysSince now t \<ge> 7 then [''Due for revision''] else []))"

definition calculateTopicPriority :: "int \<Rightarrow> Topic \<Rightarrow> strength \<Rightarrow> real \<Rightarrow> PriorityResult" where
  "calculateTopicPriority now topic subjectStrength daysUntilExam =
     \<lparr>score = js_round (min 100 (max 0 (totalScore now topic subjectStrength daysUntilExam))),
      reasons = priorityReasons now topic subjectStrength daysUntilExam\<rparr>"

section \<open>Daily schedule (\<open>src/lib/study-algorithm.ts\<close>, \<open>generateDailySchedule\<close>)\<close>

record Candidate =
  topic :: Topic
  subject :: Subject
  priority :: PriorityResult

record AllocState =
  remainingMinutes :: real
  learningAllocated :: real
  revisionAllocated :: real
  recallAllocated :: real

definition topicsWithPriority :: "int \<Rightarrow> Subject list \<Rightarrow> real \<Rightarrow> Candidate list" where
  "topicsWithPriority now subjects daysUntilExam =
     concat (map (\<lambda>s.
        map (\<lambda>t. \<lparr>topic = t, subject = s,
                   priority = calculateTopicPriority now t (strength_of s) daysUntilExam\<rparr>)
            (filter (\<lambda>t. \<not> is_completed t) (case topics s of None \<Rightarrow> [] | Some ts \<Rightarrow> ts)))
        subjects)"

text \<open>
  \<open>Array.prototype.sort\<close> is stable; with the comparator \<open>b.score - a.score\<close> it is the
  stable sort by descending score, which is insertion sort on the negated score.
\<close>

definition sortByPriority :: "Candidate list \<Rightarrow> Candidate list" where
  "sortByPriority cs = sort_key (\<lambda>c. - score (priority c)) cs"

definition firstReason :: "string list \<Rightarrow> string \<Rightarrow> string" where
  "firstReason rs dflt = (case rs of [] \<Rightarrow> dflt | r # _ \<Rightarrow> r)"

definition sessionOf :: "Candidate \<Rightarrow> session_type \<Rightarrow> real \<Rightarrow> ScheduleSession" where
  "sessionOf c ty duration =
     \<lparr>topicId = tid (topic c), topicName = tname (topic c),
      subjectName = sname (subject c), subjectColor = color (subject c),
      stype = ty, durationMinutes = duration, priorityScore = score (priority c),
      reason = firstReason (reasons (priority c)) ''Scheduled for today''\<rparr>"

text \<open>
  One turn of the loop body: the session type, its duration and the updated counters
  (the remaining minutes are decremented by the caller, as at the end of the loop body).
\<close>

definition chooseSession ::
  "real \<Rightarrow> real \<Rightarrow> real \<Rightarrow> AllocState \<Rightarrow> Topic \<Rightarrow> session_type \<times> real \<times> AllocState" where
  "chooseSession availableMinutes pomodoroWorkMinutes pomodoroBreakMinutes st t =
     (let sessionDuration = pomodoroWorkMinutes + pomodoroBreakMinutes;
          targetLearning = availableMinutes * (6 / 10);
          targetRevision = availableMinutes * (3 / 10);
          targetRecall = availableMinutes * (1 / 10)
      in if last_studied_at t = None \<and> learningAllocated st < targetLearning then
           (let duration = min (sessionDuration * 2) (remainingMinutes st)
            in (learning, duration, st\<lparr>learningAllocated := learningAllocated st + duration\<rparr>))
         else if revision_count t > 0 \<and> recallAllocated st < targetRecall then
           (let duration = min pomodoroWorkMinutes (remainingMinutes st)
            in (recall, duration, st\<lparr>recallAllocated := recallAllocated st + duration\<rparr>))
         else if revisionAllocated st < targetRevision then
           (let duration = min sessionDuration (remainingMinutes st)
            in (revision, duration, st\<lparr>revisionAllocated := revisionAllocated st + duration\<rparr>))
         else
           (let duration = min sessionDuration (remainingMinutes st)
            in (learning, duration, st\<lparr>learningAllocated := learningAllocated st + duration\<rparr>)))"

fun allocate ::
  "real \<Rightarrow> real \<Rightarrow> real \<Rightarrow> AllocState \<Rightarrow> Candidate list \<Rightarrow> ScheduleSession list" where
  "allocate availableMinutes pomodoroWorkMinutes pomodoroBreakMinutes st [] = []"
| "allocate availableMinutes pomodoroWorkMinutes pomodoroBreakMinutes st (c # cs) =
     (if remainingMinutes st < pomodoroWorkMinutes + pomodoroBreakMinutes then []
      else
        (case chooseSession availableMinutes pomodoroWorkMinutes pomodoroBreakMinutes st (topic c) of
           (ty, duration, st') \<Rightarrow>
             sessionOf c ty duration #
             allocate availableMinutes pomodoroWorkMinutes pomodoroBreakMinutes
               (st'\<lparr>remainingMinutes := remainingMinutes st' - duration\<rparr>) cs))"

definition generateDailySchedule ::
  "int \<Rightarrow> Subject list \<Rightarrow> real \<Rightarrow> real \<Rightarrow> real \<Rightarrow> real \<Rightarrow> ScheduleSession list" where
  "generateDailySchedule now subjects availableMinutes pomodoroWorkMinutes pomodoroBreakMinutes
       daysUntilExam =
     allocate availableMinutes pomodoroWorkMinutes pomodoroBreakMinutes
       \<lparr>remainingMinutes = availableMinutes, learningAllocated = 0,
        revisionAllocated = 0, recallAllocated = 0\<rparr>
       (sortByPriority (topicsWithPriority now subjects daysUntilExam))"

definition revisionTime :: "('a ScheduleSession_scheme) list \<Rightarrow> real" where
  "revisionTime sched = sum_list (map durationMinutes (filter (\<lambda>s. stype s = revision) sched))"

definition totalTime :: "('a ScheduleSession_scheme) list \<Rightarrow> real" where
  "totalTime sched = sum_list (map durationMinutes sched)"

section \<open>Revision summary (\<open>src/lib/study-algorithm.ts\<close>, \<open>getRevisionSummary\<close>)\<close>

text \<open>
  \<open>startOfToday\<close> and \<open>endOfToday\<close> are the local midnights around \<open>now\<close>. The model
  takes the offset \<open>tz\<close> of local time from UTC in milliseconds and a day of 24 hours.
\<close>

record RevisionSummary =
  overdueTopics :: "Topic list"
  pendingRevisions :: "Topic list"
  completedThisWeek :: "Topic list"
  upcomingRevisions :: "Topic list"

definition startOfToday :: "int \<Rightarrow> int \<Rightarrow> int" where
  "startOfToday tz now = now - ((now + tz) mod (24 * 60 * 60 * 1000))"

definition endOfToday :: "int \<Rightarrow> int \<Rightarrow> int" where
  "endOfToday tz now = startOfToday tz now + 24 * 60 * 60 * 1000"

text \<open>
  The body of the \<open>forEach\<close>: the topic is pushed to \<open>completedThisWeek\<close> when its
  last revision lies in the past seven days, and then to at most one of the three
  arrays that the \<open>if\<close>/\<open>else if\<close> chain on \<open>next_revision_at\<close> names.
\<close>

definition summaryStep :: "int \<Rightarrow> int \<Rightarrow> RevisionSummary \<Rightarrow> Topic \<Rightarrow> RevisionSummary" where
  "summaryStep tz now acc t =
     (let weekAgo = now - 7 * 24 * 60 * 60 * 1000;
          upcomingWindowEnd = now + 7 * 24 * 60 * 60 * 1000;
          acc1 = (case last_revision_date t of
                    None \<Rightarrow> acc
                  | Some revisionDate \<Rightarrow>
                      if revisionDate \<ge> weekAgo \<and> revisionDate \<le> now
                      then acc\<lparr>completedThisWeek := completedThisWeek acc @ [t]\<rparr>
                      else acc)
      in case next_revision_at t of
           None \<Rightarrow> acc1
         | Some revisionAt \<Rightarrow>
             if revisionAt < startOfToday tz now then
               acc1\<lparr>overdueTopics := overdueTopics acc1 @ [t]\<rparr>
             else if revisionAt \<ge> startOfToday tz now \<and> revisionAt < endOfToday tz now then
               acc1\<lparr>pendingRevisions := pendingRevisions acc1 @ [t]\<rparr>
             else if revisionAt \<ge> endOfToday tz now \<and> revisionAt \<le> upcomingWindowEnd then
               acc1\<lparr>upcomingRevisions := upcomingRevisions acc1 @ [t]\<rparr>
             else acc1)"

definition getRevisionSummary :: "int \<Rightarrow> int \<Rightarrow> Topic list \<Rightarrow> RevisionSummary" where
  "getRevisionSummary tz now ts =
     foldl (summaryStep tz now)
       \<lparr>overdueTopics = [], pendingRevisions = [], completedThisWeek = [],
        upcomingRevisions = []\<rparr> ts"

section \<open>Recovery after missed sessions (\<open>rebalanceAfterMissed\<close>)\<close>

text \<open>
  This function divides by values that can be zero, so its numbers carry the special
  values of a JavaScript number: the two infinities, NaN and the negative zero
  (\<open>Fin 0\<close> is the positive zero). Finite arithmetic stays exact.
\<close>

datatype jsnum = Fin real | NegZero | PosInf | NegInf | NaN

fun is_zero :: "jsnum \<Rightarrow> bool" where
  "is_zero (Fin r) = (r = 0)"
| "is_zero NegZero = True"
| "is_zero _ = False"

fun is_inf :: "jsnum \<Rightarrow> bool" where
  "is_inf PosInf = True"
| "is_inf NegInf = True"
| "is_inf _ = False"

fun is_neg :: "jsnum \<Rightarrow> bool" where
  "is_neg (Fin r) = (r < 0)"
| "is_neg NegZero = True"
| "is_neg NegInf = True"
| "is_neg _ = False"

fun is_finite :: "jsnum \<Rightarrow> bool" where
  "is_finite (Fin r) = True"
| "is_finite NegZero = True"
| "is_finite _ = False"

fun mag :: "jsnum \<Rightarrow> real" where
  "mag (Fin r) = r"
| "mag _ = 0"

definition signed_zero :: "bool \<Rightarrow> jsnum" where
  "signed_zero neg = (if neg then NegZero else Fin 0)"

definition signed_inf :: "bool \<Rightarrow> jsnum" where
  "signed_inf neg = (if neg then NegInf else PosInf)"

definition js_div :: "jsnum \<Rightarrow> jsnum \<Rightarrow> jsnum" where
  "js_div x y =
     (if x = NaN \<or> y = NaN then NaN
      else if is_inf x \<and> is_inf y then NaN
      else if is_zero x \<and> is_zero y then NaN
      else if is_inf x \<or> is_zero y then signed_inf (is_neg x \<noteq> is_neg y)
      else if is_zero x \<or> is_inf y then signed_zero (is_neg x \<noteq> is_neg y)
      else Fin (mag x / mag y))"

definition js_mul :: "jsnum \<Rightarrow> jsnum \<Rightarrow> jsnum" where
  "js_mul x y =
     (if x = NaN \<or> y = NaN then NaN
      else if (is_inf x \<and> is_zero y) \<or> (is_zero x \<and> is_inf y) then NaN
      else if is_inf x \<or> is_inf y then signed_inf (is_neg x \<noteq> is_neg y)
      else if is_zero x \<or> is_zero y then signed_zero (is_neg x \<noteq> is_neg y)
      else Fin (mag x * mag y))"

fun Math_round :: "jsnum \<Rightarrow> jsnum" where
  "Math_round (Fin r) = (if - (1 / 2) \<le> r \<and> r < 0 then NegZero else Fin (of_int \<lfloor>r + 1 / 2\<rfloor>))"
| "Math_round x = x"

fun Math_ceil :: "jsnum \<Rightarrow> jsnum" where
  "Math_ceil (Fin r) = (if - 1 < r \<and> r < 0 then NegZero else Fin (of_int \<lceil>r\<rceil>))"
| "Math_ceil x = x"

fun tier :: "jsnum \<Rightarrow> int" where
  "tier NegInf = - 1"
| "tier PosInf = 1"
| "tier _ = 0"

definition js_lt :: "jsnum \<Rightarrow> jsnum \<Rightarrow> bool" where
  "js_lt x y = (x \<noteq> NaN \<and> y \<noteq> NaN \<and> (tier x < tier y \<or> (tier x = tier y \<and> mag x < mag y)))"

definition js_le :: "jsnum \<Rightarrow> jsnum \<Rightarrow> bool" where
  "js_le x y = (x \<noteq> NaN \<and> y \<noteq> NaN \<and> (tier x < tier y \<or> (tier x = tier y \<and> mag x \<le> mag y)))"

definition Math_min :: "jsnum \<Rightarrow> jsnum \<Rightarrow> jsnum" where
  "Math_min x y =
     (if x = NaN \<or> y = NaN then NaN
      else if js_lt x y then x
      else if js_lt y x then y
      else if x = NegZero then x else y)"

record RebalanceResult =
  extraMinutesPerDay :: jsnum
  daysToRecover :: jsnum
  message_r :: string

text \<open>
  The message interpolates two numbers; \<open>toStr\<close> stands for JavaScript's conversion of a
  number to a string, which is not modelled. \<open>maxOverloadPercentage\<close> defaults to 25.
\<close>

definition rebalanceAfterMissed ::
  "(jsnum \<Rightarrow> string) \<Rightarrow> jsnum \<Rightarrow> jsnum \<Rightarrow> jsnum \<Rightarrow> jsnum \<Rightarrow> RebalanceResult" where
  "rebalanceAfterMissed toStr missedMinutes remainingDays dailyStudyMinutes maxOverloadPercentage =
     (if js_le remainingDays (Fin 0) then
        \<lparr>extraMinutesPerDay = Fin 0, daysToRecover = Fin 0,
         message_r = ''No time left to recover. Focus on key topics only.''\<rparr>
      else
        (let maxExtraPerDay =
               Math_round (js_mul dailyStudyMinutes (js_div maxOverloadPercentage (Fin 100)));
             idealRecoveryDays = Math_ceil (js_div missedMinutes maxExtraPerDay);
             daysToRecover' = Math_min idealRecoveryDays remainingDays;
             extraMinutesPerDay' = Math_round (js_div missedMinutes daysToRecover');
             cappedExtra = Math_min extraMinutesPerDay' maxExtraPerDay
         in \<lparr>extraMinutesPerDay = cappedExtra, daysToRecover = daysToRecover',
             message_r = ''Adding '' @ toStr cappedExtra @ '' extra minutes for '' @
                         toStr daysToRecover' @ '' days to catch up.''\<rparr>))"

section \<open>The revision-aware variant of the module\<close>

text \<open>
  The repository holds a second copy of the study algorithm (its file name is not
  known; the application imports \<open>src/lib/study-algorithm.ts\<close>). That copy has the same
  \<open>calculateTopicPriority\<close>, \<open>calculateExamReadiness\<close> and \<open>rebalanceAfterMissed\<close>, adds
  \<open>checkRevisionEligibility\<close> and \<open>calculateRevisionPriority\<close>, and its
  \<open>generateDailySchedule\<close> schedules the revision-eligible topics first, under a budget
  of 40 percent, and interleaves the result. Its definitions carry the suffix \<open>_ra\<close>
  where the name is taken. \<open>toStr\<close> stands for the conversion of a number to a string
  in the two interpolated reasons.
\<close>

record RevisionEligibility =
  isEligible :: bool
  reasons_e :: "string list"
  urgencyScore :: real

record RevisionCandidate =
  topic_r :: Topic
  subject_r :: Subject
  revisionPriority :: PriorityResult
  eligibility :: RevisionEligibility

record LearningCandidate =
  topic_l :: Topic
  subject_l :: Subject
  priority_l :: PriorityResult

record ScheduleSession_ra = ScheduleSession +
  isRevisionScheduled :: bool

text \<open>The days since the last revision, or else since the last study; \<open>None\<close> when neither is set.\<close>

definition daysSinceRevision :: "int \<Rightarrow> Topic \<Rightarrow> int option" where
  "daysSinceRevision now t =
     (case last_revision_date t of
        Some r \<Rightarrow> Some (daysSince now r)
      | None \<Rightarrow> (case last_studied_at t of Some s \<Rightarrow> Some (daysSince now s) | None \<Rightarrow> None))"

text \<open>In \<open>checkRevisionEligibility\<close> the variable starts at \<open>Infinity\<close>, the \<open>None\<close> here.\<close>

definition checkRevisionEligibility ::
  "(real \<Rightarrow> string) \<Rightarrow> int \<Rightarrow> Topic \<Rightarrow> real \<Rightarrow> RevisionEligibility" where
  "checkRevisionEligibility toStr now t daysUntilExam =
     (let hasBeenStudied = (last_studied_at t \<noteq> None \<or> completed_hours t > 0);
          lowConfidence = (confidence_level t \<le> 3);
          reasons1 =
            (if lowConfidence then [''Low confidence ('' @ toStr (confidence_level t) @ ''/5)'']
             else []);
          urgency1 = (if lowConfidence then (3 - confidence_level t + 1) * 20 else 0);
          needsRevisionByTime =
            (case daysSinceRevision now t of None \<Rightarrow> True | Some d \<Rightarrow> d \<ge> 7);
          reasons2 =
            (if needsRevisionByTime \<and> hasBeenStudied then
               [''Not revised in '' @
                (case daysSinceRevision now t of
                   None \<Rightarrow> ''Infinity'' | Some d \<Rightarrow> toStr (of_int d)) @ '' days'']
             else []);
          urgency2 =
            (if needsRevisionByTime \<and> hasBeenStudied then
               (case daysSinceRevision now t of
                  None \<Rightarrow> 50 | Some d \<Rightarrow> min (of_int d * 5) 50)
             else 0);
          reasons3 =
            (if daysUntilExam \<le> 7 then [''Exam approaching - final revision needed''] else []);
          urgency3 = (if daysUntilExam \<le> 7 then 30 else if daysUntilExam \<le> 14 then 20 else 0)
      in \<lparr>isEligible = (hasBeenStudied \<and> (lowConfidence \<or> needsRevisionByTime)),
          reasons_e = reasons1 @ reasons2 @ reasons3,
          urgencyScore = min (urgency1 + urgency2 + urgency3) 100\<rparr>)"

definition proximityOf :: "real \<Rightarrow> real" where
  "proximityOf daysUntilExam =
     (if daysUntilExam \<le> 7 then 100 else if daysUntilExam \<le> 14 then 80
      else if daysUntilExam \<le> 30 then 60 else 30)"

text \<open>In \<open>calculateRevisionPriority\<close> the days since the last revision start at 0.\<close>

definition revisionTotalScore :: "int \<Rightarrow> Topic \<Rightarrow> strength \<Rightarrow> real \<Rightarrow> real" where
  "revisionTotalScore now t subjectStrength daysUntilExam =
     (let d = (case daysSinceRevision now t of None \<Rightarrow> 0 | Some d \<Rightarrow> d);
          recencyScore = min (of_int d * 5) 100
      in (recencyScore / 100) * 35 +
         ((((5 - confidence_level t) / 4) * 100) / 100) * 30 +
         (proximityOf daysUntilExam / 100) * 20 +
         (STRENGTH_SCORES subjectStrength / 100) * 15)"

definition revisionReasons :: "int \<Rightarrow> Topic \<Rightarrow> strength \<Rightarrow> string list" where
  "revisionReasons now t subjectStrength =
     (let d = (case daysSinceRevision now t of None \<Rightarrow> 0 | Some d \<Rightarrow> d)
      in (if d \<ge> 14 then [''Overdue for revision'']
          else if d \<ge> 7 then [''Due for scheduled revision''] else []) @
         (if confidence_level t \<le> 2 then [''Low confidence - revision critical'']
          else if confidence_level t \<le> 3 then [''Moderate confidence - revision recommended'']
          else []) @
         (if subjectStrength = weak then [''Weak subject - extra attention needed''] else []))"

definition calculateRevisionPriority :: "int \<Rightarrow> Topic \<Rightarrow> strength \<Rightarrow> real \<Rightarrow> PriorityResult" where
  "calculateRevisionPriority now t subjectStrength daysUntilExam =
     \<lparr>score = js_round (min 100 (max 0 (revisionTotalScore now t subjectStrength daysUntilExam))),
      reasons = revisionReasons now t subjectStrength\<rparr>"

definition openTopics :: "Subject \<Rightarrow> Topic list" where
  "openTopics s = filter (\<lambda>t. \<not> is_completed t) (case topics s of None \<Rightarrow> [] | Some ts \<Rightarrow> ts)"

definition revisionTopics ::
  "(real \<Rightarrow> string) \<Rightarrow> int \<Rightarrow> Subject list \<Rightarrow> real \<Rightarrow> RevisionCandidate list" where
  "revisionTopics toStr now subjects daysUntilExam =
     concat (map (\<lambda>s.
        map (\<lambda>t. \<lparr>topic_r = t, subject_r = s,
                   revisionPriority = calculateRevisionPriority now t (strength_of s) daysUntilExam,
                   eligibility = checkRevisionEligibility toStr now t daysUntilExam\<rparr>)
            (filter (\<lambda>t. isEligible (checkRevisionEligibility toStr now t daysUntilExam))
               (openTopics s)))
        subjects)"

definition learningTopics ::
  "(real \<Rightarrow> string) \<Rightarrow> int \<Rightarrow> Subject list \<Rightarrow> real \<Rightarrow> LearningCandidate list" where
  "learningTopics toStr now subjects daysUntilExam =
     concat (map (\<lambda>s.
        map (\<lambda>t. \<lparr>topic_l = t, subject_l = s,
                   priority_l = calculateTopicPriority now t (strength_of s) daysUntilExam\<rparr>)
            (filter (\<lambda>t. \<not> isEligible (checkRevisionEligibility toStr now t daysUntilExam))
               (openTopics s)))
        subjects)"

definition revisionSession :: "RevisionCandidate \<Rightarrow> session_type \<Rightarrow> real \<Rightarrow> ScheduleSession_ra" where
  "revisionSession c ty duration =
     \<lparr>topicId = tid (topic_r c), topicName = tname (topic_r c),
      subjectName = sname (subject_r c), subjectColor = color (subject_r c),
      stype = ty, durationMinutes = duration, priorityScore = score (revisionPriority c),
      reason = firstReason (reasons_e (eligibility c)) ''Scheduled due to revision cycle'',
      isRevisionScheduled = True\<rparr>"

definition learningSession :: "LearningCandidate \<Rightarrow> real \<Rightarrow> ScheduleSession_ra" where
  "learningSession c duration =
     \<lparr>topicId = tid (topic_l c), topicName = tname (topic_l c),
      subjectName = sname (subject_l c), subjectColor = color (subject_l c),
      stype = learning, durationMinutes = duration, priorityScore = score (priority_l c),
      reason = firstReason (reasons (priority_l c)) ''Scheduled for today'',
      isRevisionScheduled = False\<rparr>"

text \<open>
  The first loop, over the revision candidates: it returns the sessions it pushed and
  the minutes that remain for the second loop.
\<close>

fun allocateRevisions ::
  "real \<Rightarrow> real \<Rightarrow> real \<Rightarrow> real \<Rightarrow> real \<Rightarrow> RevisionCandidate list
     \<Rightarrow> ScheduleSession_ra list \<times> real" where
  "allocateRevisions pomodoroWorkMinutes pomodoroBreakMinutes revisionBudget remaining allocated [] =
     ([], remaining)"
| "allocateRevisions pomodoroWorkMinutes pomodoroBreakMinutes revisionBudget remaining allocated
       (c # cs) =
     (if remaining < pomodoroWorkMinutes then ([], remaining)
      else if allocated \<ge> revisionBudget then ([], remaining)
      else
        (let isQuickRecall = (revision_count (topic_r c) \<ge> 3 \<and> confidence_level (topic_r c) \<ge> 3);
             duration = (if isQuickRecall then min pomodoroWorkMinutes remaining
                         else min (pomodoroWorkMinutes + pomodoroBreakMinutes) remaining);
             sessionType = (if isQuickRecall then recall else revision);
             rest = allocateRevisions pomodoroWorkMinutes pomodoroBreakMinutes revisionBudget
                      (remaining - duration)
                      (if sessionType \<noteq> recall then allocated + duration else allocated) cs
         in (revisionSession c sessionType duration # fst rest, snd rest)))"

fun allocateLearning ::
  "real \<Rightarrow> real \<Rightarrow> real \<Rightarrow> LearningCandidate list \<Rightarrow> ScheduleSession_ra list" where
  "allocateLearning pomodoroWorkMinutes pomodoroBreakMinutes remaining [] = []"
| "allocateLearning pomodoroWorkMinutes pomodoroBreakMinutes remaining (c # cs) =
     (if remaining < pomodoroWorkMinutes + pomodoroBreakMinutes then []
      else
        (let duration =
               (if last_studied_at (topic_l c) = None
                then min ((pomodoroWorkMinutes + pomodoroBreakMinutes) * 2) remaining
                else min (pomodoroWorkMinutes + pomodoroBreakMinutes) remaining)
         in learningSession c duration #
            allocateLearning pomodoroWorkMinutes pomodoroBreakMinutes (remaining - duration) cs))"

text \<open>
  The interleaving loop: while either array has sessions left, up to two of the others
  and then one revision session.
\<close>

function interleave :: "'a list \<Rightarrow> 'a list \<Rightarrow> 'a list" where
  "interleave others revisions =
     (if others = [] \<and> revisions = [] then []
      else take 2 others @ take 1 revisions @ interleave (drop 2 others) (drop 1 revisions))"
  by pat_completeness auto
termination
  by (relation "measure (\<lambda>(others, revisions). length others + length revisions)")
     (auto simp: neq_Nil_conv)

declare interleave.simps [simp del]

text \<open>The sessions the two loops push, before the interleaving.\<close>

definition accumulated_ra ::
  "(real \<Rightarrow> string) \<Rightarrow> int \<Rightarrow> Subject list \<Rightarrow> real \<Rightarrow> real \<Rightarrow> real \<Rightarrow> real
     \<Rightarrow> ScheduleSession_ra list" where
  "accumulated_ra toStr now subjects availableMinutes pomodoroWorkMinutes pomodoroBreakMinutes
       daysUntilExam =
     (let learningSorted =
            sort_key (\<lambda>c. - score (priority_l c))
              (learningTopics toStr now subjects daysUntilExam);
          revisionSorted =
            sort_key (\<lambda>c. - score (revisionPriority c))
              (revisionTopics toStr now subjects daysUntilExam);
          revisionBudget = of_int \<lfloor>(availableMinutes * 40) / 100\<rfloor>;
          first = allocateRevisions pomodoroWorkMinutes pomodoroBreakMinutes revisionBudget
                    availableMinutes 0 revisionSorted
      in fst first @
         allocateLearning pomodoroWorkMinutes pomodoroBreakMinutes (snd first) learningSorted)"

definition generateDailySchedule_ra ::
  "(real \<Rightarrow> string) \<Rightarrow> int \<Rightarrow> Subject list \<Rightarrow> real \<Rightarrow> real \<Rightarrow> real \<Rightarrow> real
     \<Rightarrow> ScheduleSession_ra list" where
  "generateDailySchedule_ra toStr now subjects availableMinutes pomodoroWorkMinutes
       pomodoroBreakMinutes daysUntilExam =
     (let schedule = accumulated_ra toStr now subjects availableMinutes pomodoroWorkMinutes
                       pomodoroBreakMinutes daysUntilExam
      in interleave (filter (\<lambda>s. stype s \<noteq> revision) schedule)
                    (filter (\<lambda>s. stype s = revision) schedule))"

text \<open>
  The interleaved order, stated on the schedule alone. Reading each session as a
  revision session (\<open>True\<close>) or another one (\<open>False\<close>), the schedule is a run of full
  groups other, other, revision, followed by a rest in which one of the two kinds has
  run out: only others, or only revisions, or one last other and then only revisions.
\<close>

definition restPattern :: "bool list \<Rightarrow> bool" where
  "restPattern rs =
     (list_all (\<lambda>r. r = False) rs \<or> list_all (\<lambda>r. r = True) rs
      \<or> (case rs of [] \<Rightarrow> False | r # rest \<Rightarrow> r = False \<and> list_all (\<lambda>r. r = True) rest))"

fun groupsPattern :: "bool list \<Rightarrow> bool" where
  "groupsPattern (False # False # True # rest) = groupsPattern rest"
| "groupsPattern rs = restPattern rs"

definition interleaved :: "('a ScheduleSession_scheme) list \<Rightarrow> bool" where
  "interleaved sched = groupsPattern (map (\<lambda>s. stype s = revision) sched)"

text \<open>A schedule is in priority order when the scores never increase along it.\<close>

definition priorityOrdered :: "('a ScheduleSession_scheme) list \<Rightarrow> bool" where
  "priorityOrdered sched = sorted_wrt (\<lambda>a b. priorityScore a \<ge> priorityScore b) sched"

section \<open>Predicates used in the statements\<close>

text \<open>The three conditions of the \<open>if\<close>/\<open>else if\<close> chain of \<open>getRevisionSummary\<close>.\<close>

definition isOverdue :: "int \<Rightarrow> int \<Rightarrow> Topic \<Rightarrow> bool" where
  "isOverdue tz now t =
     (case next_revision_at t of None \<Rightarrow> False | Some r \<Rightarrow> r < startOfToday tz now)"

definition isPending :: "int \<Rightarrow> int \<Rightarrow> Topic \<Rightarrow> bool" where
  "isPending tz now t =
     (case next_revision_at t of
        None \<Rightarrow> False
      | Some r \<Rightarrow> startOfToday tz now \<le> r \<and> r < endOfToday tz now)"

definition isUpcoming :: "int \<Rightarrow> int \<Rightarrow> Topic \<Rightarrow> bool" where
  "isUpcoming tz now t =
     (case next_revision_at t of
        None \<Rightarrow> False
      | Some r \<Rightarrow> endOfToday tz now \<le> r \<and> r \<le> now + 7 * 24 * 60 * 60 * 1000)"

text \<open>
  Two clock readings agree on a topic when it was never studied or when both show the
  same whole number of days since \<open>last_studied_at\<close>.
\<close>

definition sameDaysSinceStudy :: "int \<Rightarrow> int \<Rightarrow> Topic \<Rightarrow> bool" where
  "sameDaysSinceStudy now1 now2 t =
     (map_option (daysSince now1) (last_studied_at t)
        = map_option (daysSince now2) (last_studied_at t))"

definition topicsOf :: "Subject \<Rightarrow> Topic list" where
  "topicsOf s = (case topics s of None \<Rightarrow> [] | Some ts \<Rightarrow> ts)"

section \<open>Example inputs\<close>

text \<open>
  A topic of a weak subject, studied once at 1700000000000 ms (14 November 2023) with
  confidence 1, and a topic of a strong subject that was never studied, with
  confidence 5.
\<close>

definition studiedTopic :: Topic where
  "studiedTopic =
     \<lparr>tid = ''t1'', tname = ''Algebra'', confidence_level = 1, priority_score = 50,
      estimated_hours = 1, completed_hours = 0, last_studied_at = Some 1700000000000,
      next_revision_at = None, revision_count = 0, is_completed = False,
      last_revision_date = None, revision_confidence_delta = None\<rparr>"

definition newTopic :: Topic where
  "newTopic =
     \<lparr>tid = ''t2'', tname = ''History'', confidence_level = 5, priority_score = 50,
      estimated_hours = 1, completed_hours = 0, last_studied_at = None,
      next_revision_at = None, revision_count = 0, is_completed = False,
      last_revision_date = None, revision_confidence_delta = None\<rparr>"

definition weakSubject :: Subject where
  "weakSubject =
     \<lparr>sid = ''s1'', sname = ''Maths'', strength_of = weak, color = ''red'',
      topics = Some [studiedTopic]\<rparr>"

definition strongSubject :: Subject where
  "strongSubject =
     \<lparr>sid = ''s2'', sname = ''Arts'', strength_of = strong, color = ''blue'',
      topics = Some [newTopic]\<rparr>"

section \<open>Properties of the readiness estimator\<close>

lemma percentage_calculateExamReadiness:
  "percentage (calculateExamReadiness c a s d) = js_round (readinessScore c a s d * 100)"
  by (simp add: calculateExamReadiness_def Let_def)

lemma normalizedStreak_mono: "s \<le> s' \<Longrightarrow> normalizedStreak s \<le> normalizedStreak s'"
  by (simp add: normalizedStreak_def min_def)

lemma normalizedTime_mono: "d \<le> d' \<Longrightarrow> normalizedTime d \<le> normalizedTime d'"
  by (simp add: normalizedTime_def min_def)

lemma js_round_mono: "x \<le> y \<Longrightarrow> js_round x \<le> js_round y"
  by (simp add: js_round_def floor_mono)

lemma readinessScore_mono:
  assumes "c \<le> c'" "a \<le> a'" "s \<le> s'" "d \<le> d'"
  shows "readinessScore c a s d \<le> readinessScore c' a' s' d'"
proof -
  have "normalizedStreak s \<le> normalizedStreak s'" "normalizedTime d \<le> normalizedTime d'"
    using assms by (simp_all add: normalizedStreak_mono normalizedTime_mono)
  with assms(1,2) show ?thesis
    by (simp add: readinessScore_def add_mono)
qed

lemma normalizedStreak_range: "0 \<le> s \<Longrightarrow> 0 \<le> normalizedStreak s \<and> normalizedStreak s \<le> 1"
  by (simp add: normalizedStreak_def)

lemma normalizedTime_range: "0 \<le> normalizedTime d \<and> normalizedTime d \<le> 1"
  by (simp add: normalizedTime_def)

lemma readinessScore_range:
  assumes "0 \<le> c" "c \<le> 100" "0 \<le> a" "a \<le> 5" "0 \<le> s"
  shows "0 \<le> readinessScore c a s d \<and> readinessScore c a s d \<le> 1"
proof -
  have st: "0 \<le> normalizedStreak s" "normalizedStreak s \<le> 1"
    using normalizedStreak_range [OF assms(5)] by simp_all
  have ti: "0 \<le> normalizedTime d" "normalizedTime d \<le> 1"
    using normalizedTime_range [of d] by simp_all
  show ?thesis
    unfolding readinessScore_def using assms(1-4) st ti by simp
qed

lemma js_round_range: "0 \<le> x \<Longrightarrow> x \<le> 100 \<Longrightarrow> 0 \<le> js_round x \<and> js_round x \<le> 100"
  unfolding js_round_def by (simp add: floor_le_iff le_floor_iff)

text \<open>
  Claim C5, as stated, at an out-of-range input: a completion of 200 percent with full
  confidence, streak and time gives 140 percent. The function caps the streak and the
  days only.
\<close>

theorem C5_readiness_not_clamped:
  "\<not> (0 \<le> percentage (calculateExamReadiness 200 5 14 30)
      \<and> percentage (calculateExamReadiness 200 5 14 30) \<le> 100)"
  by (simp add: percentage_calculateExamReadiness readinessScore_def normalizedStreak_def
      normalizedTime_def js_round_def)

text \<open>
  Claim C5, amended: when the completion percentage lies in 0..100, the average
  confidence in 0..5 and the streak is not negative, the percentage of
  \<open>calculateExamReadiness\<close> lies in 0..100, for every number of days until the exam.
\<close>

theorem C5_readiness_percentage_range:
  assumes "0 \<le> c" "c \<le> 100" "0 \<le> a" "a \<le> 5" "0 \<le> s"
  shows "0 \<le> percentage (calculateExamReadiness c a s d)
       \<and> percentage (calculateExamReadiness c a s d) \<le> 100"
proof -
  have "0 \<le> readinessScore c a s d * 100" "readinessScore c a s d * 100 \<le> 100"
    using readinessScore_range [OF assms, of d] by simp_all
  then show ?thesis
    by (simp add: percentage_calculateExamReadiness js_round_range)
qed

theorem C5_readiness_percentage_range_witness:
  "(0::real) \<le> 50 \<and> (50::real) \<le> 100 \<and> (0::real) \<le> 3 \<and> (3::real) \<le> 5 \<and> (0::real) \<le> 7
   \<and> 0 \<le> percentage (calculateExamReadiness 50 3 7 20)
   \<and> percentage (calculateExamReadiness 50 3 7 20) \<le> 100"
  using C5_readiness_percentage_range [of 50 3 7 20] by simp

text \<open>
  Claim C6: the percentage of \<open>calculateExamReadiness\<close> does not decrease when one of
  its four inputs is raised and the other three are kept.
\<close>

theorem C6_readiness_monotone:
  "(c \<le> c' \<longrightarrow> percentage (calculateExamReadiness c a s d)
                \<le> percentage (calculateExamReadiness c' a s d))
   \<and> (a \<le> a' \<longrightarrow> percentage (calculateExamReadiness c a s d)
                  \<le> percentage (calculateExamReadiness c a' s d))
   \<and> (s \<le> s' \<longrightarrow> percentage (calculateExamReadiness c a s d)
                  \<le> percentage (calculateExamReadiness c a s' d))
   \<and> (d \<le> d' \<longrightarrow> percentage (calculateExamReadiness c a s d)
                  \<le> percentage (calculateExamReadiness c a s d'))"
proof -
  have joint: "percentage (calculateExamReadiness x1 x2 x3 x4)
                 \<le> percentage (calculateExamReadiness y1 y2 y3 y4)"
    if "x1 \<le> y1" "x2 \<le> y2" "x3 \<le> y3" "x4 \<le> y4" for x1 x2 x3 x4 y1 y2 y3 y4
  proof -
    have "readinessScore x1 x2 x3 x4 * 100 \<le> readinessScore y1 y2 y3 y4 * 100"
      using readinessScore_mono [OF that] by simp
    then show ?thesis
      by (simp add: percentage_calculateExamReadiness js_round_mono)
  qed
  show ?thesis
    by (simp add: joint)
qed

theorem C6_readiness_monotone_witness:
  "percentage (calculateExamReadiness 40 3 7 20) \<le> percentage (calculateExamReadiness 60 3 7 20)
   \<and> percentage (calculateExamReadiness 40 3 7 20) \<le> percentage (calculateExamReadiness 40 4 7 20)
   \<and> percentage (calculateExamReadiness 40 3 7 20) \<le> percentage (calculateExamReadiness 40 3 9 20)
   \<and> percentage (calculateExamReadiness 40 3 7 20) \<le> percentage (calculateExamReadiness 40 3 7 25)"
  using C6_readiness_monotone [of 40 60 3 7 20 4 9 25] by simp

text \<open>
  Claim C7, as stated: the percentage of \<open>calculateExamReadiness(0, 1, 0, 30)\<close> is not 10.
\<close>

theorem C7_readiness_example_not_10:
  "percentage (calculateExamReadiness 0 1 0 30) \<noteq> 10"
  by (simp add: percentage_calculateExamReadiness readinessScore_def normalizedStreak_def
      normalizedTime_def js_round_def)

text \<open>
  Claim C7, amended: \<open>calculateExamReadiness(0, 1, 0, 30)\<close> returns the status
  \<open>not_ready\<close> with the percentage 17: the time factor contributes 0.10 and the
  confidence of 1 out of 5 contributes 0.35 * 1/5 = 0.07.
\<close>

theorem C7_readiness_example:
  "calculateExamReadiness 0 1 0 30 =
     \<lparr>status = not_ready, percentage = 17,
      message = ''Let's build your study momentum. Start with high-priority topics.''\<rparr>
   \<and> readinessScore 0 1 0 30 = 10 / 100 + 7 / 100"
  by (simp add: calculateExamReadiness_def readinessScore_def normalizedStreak_def
      normalizedTime_def js_round_def)

section \<open>Properties of the priority scores\<close>

lemma js_round_clamp:
  "0 \<le> js_round (min 100 (max 0 x)) \<and> js_round (min 100 (max 0 x)) \<le> 100"
  by (rule js_round_range) simp_all

text \<open>
  Claim C9: for every topic, subject strength and number of days until the exam (and
  every reading of the clock), the score of \<open>calculateTopicPriority\<close> (the learning
  priority) and the score of \<open>calculateRevisionPriority\<close> (the revision priority of the
  revision-aware variant) are integers between 0 and 100.
\<close>

theorem C9_priority_scores_in_range:
  "0 \<le> score (calculateTopicPriority now t s d)
   \<and> score (calculateTopicPriority now t s d) \<le> 100
   \<and> 0 \<le> score (calculateRevisionPriority now t s d)
   \<and> score (calculateRevisionPriority now t s d) \<le> 100"
  using js_round_clamp [of "totalScore now t s d"]
    js_round_clamp [of "revisionTotalScore now t s d"]
  by (simp add: calculateTopicPriority_def calculateRevisionPriority_def)

section \<open>Properties of the revision summary\<close>

lemma summaryStep_overdue:
  "overdueTopics (summaryStep tz now acc t) =
     overdueTopics acc @ (if isOverdue tz now t then [t] else [])"
  by (simp add: summaryStep_def isOverdue_def Let_def split: option.splits)

lemma summaryStep_pending:
  "pendingRevisions (summaryStep tz now acc t) =
     pendingRevisions acc @ (if isPending tz now t then [t] else [])"
  by (auto simp add: summaryStep_def isPending_def Let_def split: option.splits)

lemma summaryStep_upcoming:
  "upcomingRevisions (summaryStep tz now acc t) =
     upcomingRevisions acc @ (if isUpcoming tz now t then [t] else [])"
  by (auto simp add: summaryStep_def isUpcoming_def endOfToday_def Let_def split: option.splits)

lemma foldl_summaryStep_overdue:
  "overdueTopics (foldl (summaryStep tz now) acc ts) =
     overdueTopics acc @ filter (isOverdue tz now) ts"
  by (induction ts arbitrary: acc) (simp_all add: summaryStep_overdue)

lemma foldl_summaryStep_pending:
  "pendingRevisions (foldl (summaryStep tz now) acc ts) =
     pendingRevisions acc @ filter (isPending tz now) ts"
  by (induction ts arbitrary: acc) (simp_all add: summaryStep_pending)

lemma foldl_summaryStep_upcoming:
  "upcomingRevisions (foldl (summaryStep tz now) acc ts) =
     upcomingRevisions acc @ filter (isUpcoming tz now) ts"
  by (induction ts arbitrary: acc) (simp_all add: summaryStep_upcoming)

lemma buckets_exclusive:
  "\<not> (isOverdue tz now t \<and> isPending tz now t)"
  "\<not> (isOverdue tz now t \<and> isUpcoming tz now t)"
  "\<not> (isPending tz now t \<and> isUpcoming tz now t)"
  by (auto simp add: isOverdue_def isPending_def isUpcoming_def endOfToday_def
      split: option.splits)

text \<open>
  Claim C10: for every list of topics, the arrays \<open>overdueTopics\<close>, \<open>pendingRevisions\<close>
  and \<open>upcomingRevisions\<close> returned by \<open>getRevisionSummary\<close> are pairwise disjoint: no
  topic is in two of them.
\<close>

theorem C10_revision_buckets_disjoint:
  "set (overdueTopics (getRevisionSummary tz now ts))
     \<inter> set (pendingRevisions (getRevisionSummary tz now ts)) = {}
   \<and> set (overdueTopics (getRevisionSummary tz now ts))
     \<inter> set (upcomingRevisions (getRevisionSummary tz now ts)) = {}
   \<and> set (pendingRevisions (getRevisionSummary tz now ts))
     \<inter> set (upcomingRevisions (getRevisionSummary tz now ts)) = {}"
  using buckets_exclusive [of tz now]
  by (auto simp add: getRevisionSummary_def foldl_summaryStep_overdue
      foldl_summaryStep_pending foldl_summaryStep_upcoming)

section \<open>Properties of the allocation loop\<close>


lemma chooseSession_duration:
  assumes "chooseSession a w b st t = (ty, d, st')"
  shows "d \<le> remainingMinutes st" "remainingMinutes st' = remainingMinutes st"
  using assms by (auto simp add: chooseSession_def Let_def split: if_splits)

lemma chooseSession_revision:
  assumes "chooseSession a w b st t = (ty, d, st')"
  shows "ty = revision \<Longrightarrow> revisionAllocated st < a * (3 / 10) \<and> d \<le> w + b
            \<and> revisionAllocated st' = revisionAllocated st + d"
    and "ty \<noteq> revision \<Longrightarrow> revisionAllocated st' = revisionAllocated st"
  using assms by (auto simp add: chooseSession_def Let_def split: if_splits)

lemma revisionTime_Cons:
  "revisionTime (s # ss) = (if stype s = revision then durationMinutes s else 0) + revisionTime ss"
  by (simp add: revisionTime_def)

lemma sessionOf_sel [simp]:
  "stype (sessionOf c ty d) = ty" "durationMinutes (sessionOf c ty d) = d"
  "priorityScore (sessionOf c ty d) = score (priority c)"
  by (simp_all add: sessionOf_def)

lemma allocate_revision_bound:
  "revisionTime (allocate a w b st cs) = 0
   \<or> revisionAllocated st + revisionTime (allocate a w b st cs) < a * (3 / 10) + (w + b)"
proof (induction cs arbitrary: st)
  case Nil
  then show ?case by (simp add: revisionTime_def)
next
  case (Cons c cs)
  show ?case
  proof (cases "remainingMinutes st < w + b")
    case True
    then show ?thesis by (simp add: revisionTime_def)
  next
    case False
    obtain ty d st' where ch: "chooseSession a w b st (topic c) = (ty, d, st')"
      by (cases "chooseSession a w b st (topic c)") auto
    let ?st = "st'\<lparr>remainingMinutes := remainingMinutes st' - d\<rparr>"
    let ?rest = "allocate a w b ?st cs"
    have unfold: "allocate a w b st (c # cs) = sessionOf c ty d # ?rest"
      using False ch by simp
    have ih: "revisionTime ?rest = 0 \<or> revisionAllocated ?st + revisionTime ?rest < a * (3 / 10) + (w + b)"
      by (rule Cons.IH)
    show ?thesis
    proof (cases "ty = revision")
      case True
      from chooseSession_revision(1) [OF ch True]
      have "revisionAllocated st < a * (3 / 10)" "d \<le> w + b"
        "revisionAllocated st' = revisionAllocated st + d" by simp_all
      with ih True show ?thesis
        unfolding unfold revisionTime_Cons by auto
    next
      case False
      from chooseSession_revision(2) [OF ch False]
      have "revisionAllocated st' = revisionAllocated st" .
      with ih False show ?thesis
        unfolding unfold revisionTime_Cons by auto
    qed
  qed
qed

lemma totalTime_Cons: "totalTime (s # ss) = durationMinutes s + totalTime ss"
  by (simp add: totalTime_def)

lemma totalTime_Nil: "totalTime [] = 0"
  by (simp add: totalTime_def)

lemma allocate_within_remaining:
  "i < length (allocate a w b st cs) \<Longrightarrow>
     durationMinutes (allocate a w b st cs ! i)
       \<le> remainingMinutes st - totalTime (take i (allocate a w b st cs))"
proof (induction cs arbitrary: st i)
  case Nil
  then show ?case by simp
next
  case (Cons c cs)
  show ?case
  proof (cases "remainingMinutes st < w + b")
    case True
    with Cons.prems show ?thesis by simp
  next
    case False
    obtain ty d st' where ch: "chooseSession a w b st (topic c) = (ty, d, st')"
      by (cases "chooseSession a w b st (topic c)") auto
    let ?st = "st'\<lparr>remainingMinutes := remainingMinutes st' - d\<rparr>"
    let ?rest = "allocate a w b ?st cs"
    have unfold: "allocate a w b st (c # cs) = sessionOf c ty d # ?rest"
      using False ch by simp
    have d: "d \<le> remainingMinutes st" and r: "remainingMinutes ?st = remainingMinutes st - d"
      using chooseSession_duration [OF ch] by simp_all
    show ?thesis
    proof (cases i)
      case 0
      with d show ?thesis unfolding unfold by (simp add: totalTime_Nil)
    next
      case (Suc j)
      with Cons.prems have "j < length ?rest" unfolding unfold by simp
      from Cons.IH [OF this] r Suc show ?thesis
        unfolding unfold by (simp add: totalTime_Cons)
    qed
  qed
qed

lemma allocate_total:
  "allocate a w b st cs \<noteq> [] \<Longrightarrow> totalTime (allocate a w b st cs) \<le> remainingMinutes st"
proof -
  assume ne: "allocate a w b st cs \<noteq> []"
  let ?xs = "allocate a w b st cs"
  have "length ?xs - 1 < length ?xs" using ne by simp
  from allocate_within_remaining [OF this]
  have "durationMinutes (last ?xs) \<le> remainingMinutes st - totalTime (butlast ?xs)"
    using ne by (simp add: last_conv_nth butlast_conv_take)
  moreover have "totalTime ?xs = totalTime (butlast ?xs) + durationMinutes (last ?xs)"
  proof -
    have "totalTime (butlast ?xs @ [last ?xs]) = totalTime (butlast ?xs) + durationMinutes (last ?xs)"
      by (simp add: totalTime_def)
    then show ?thesis using ne by simp
  qed
  ultimately show ?thesis by simp
qed

lemma allocate_scores_prefix:
  "map priorityScore (allocate a w b st cs)
     = take (length (allocate a w b st cs)) (map (\<lambda>c. score (priority c)) cs)"
proof (induction cs arbitrary: st)
  case Nil
  then show ?case by simp
next
  case (Cons c cs)
  show ?case
  proof (cases "remainingMinutes st < w + b")
    case True
    then show ?thesis by simp
  next
    case False
    obtain ty d st' where ch: "chooseSession a w b st (topic c) = (ty, d, st')"
      by (cases "chooseSession a w b st (topic c)") auto
    show ?thesis using False ch Cons.IH by simp
  qed
qed

lemma sortByPriority_descending:
  "sorted_wrt (\<lambda>x y. x \<ge> y) (map (\<lambda>c. score (priority c)) (sortByPriority cs))"
proof -
  have "sorted (map (\<lambda>c. - score (priority c)) (sortByPriority cs))"
    unfolding sortByPriority_def by (rule sorted_sort_key)
  then show ?thesis
    by (simp add: sorted_wrt_map)
qed

lemma allocate_priorityOrdered:
  assumes "sorted_wrt (\<lambda>x y. x \<ge> y) (map (\<lambda>c. score (priority c)) cs)"
  shows "priorityOrdered (allocate a w b st cs)"
proof -
  have "sorted_wrt (\<lambda>x y. x \<ge> y) (map priorityScore (allocate a w b st cs))"
    unfolding allocate_scores_prefix [of a w b st cs] using assms by (rule sorted_wrt_take)
  then show ?thesis
    by (simp add: priorityOrdered_def sorted_wrt_map)
qed

lemma interleave_filter:
  assumes "\<forall>x \<in> set os. \<not> P x" "\<forall>x \<in> set rs. P x"
  shows "filter (\<lambda>x. \<not> P x) (interleave os rs) = os \<and> filter P (interleave os rs) = rs"
  using assms
proof (induction os rs rule: interleave.induct)
  case (1 others revisions)
  show ?case
  proof (cases "others = [] \<and> revisions = []")
    case True
    then show ?thesis by (simp add: interleave.simps)
  next
    case False
    have o: "\<forall>x \<in> set (drop 2 others). \<not> P x" and r: "\<forall>x \<in> set (drop 1 revisions). P x"
      using "1.prems" by (auto dest: in_set_dropD)
    have ih: "filter (\<lambda>x. \<not> P x) (interleave (drop 2 others) (drop 1 revisions)) = drop 2 others"
             "filter P (interleave (drop 2 others) (drop 1 revisions)) = drop 1 revisions"
      using "1.IH" [OF False o r] by simp_all
    have t1: "filter (\<lambda>x. \<not> P x) (take 2 others) = take 2 others" "filter P (take 2 others) = []"
      using "1.prems"(1) by (auto simp add: filter_empty_conv dest: in_set_takeD intro: filter_True)
    have t2: "filter (\<lambda>x. \<not> P x) (take 1 revisions) = []" "filter P (take 1 revisions) = take 1 revisions"
      using "1.prems"(2) by (auto simp add: filter_empty_conv dest: in_set_takeD intro: filter_True)
    have "interleave others revisions
            = take 2 others @ take 1 revisions @ interleave (drop 2 others) (drop 1 revisions)"
      by (subst interleave.simps) (simp only: False if_False)
    then show ?thesis
      using ih t1 t2 by simp
  qed
qed

lemma interleave_no_others: "interleave [] rs = rs"
proof (induction rs)
  case Nil
  show ?case by (simp add: interleave.simps [of "[]" "[]"])
next
  case (Cons r rs)
  then show ?case by (simp add: interleave.simps [of "[]" "r # rs"])
qed

lemma interleave_no_revisions: "interleave os [] = os"
proof (induction os rule: induct_list012)
  case 1
  show ?case by (simp add: interleave.simps [of "[]" "[]"])
next
  case (2 x)
  show ?case by (simp add: interleave.simps [of "[x]" "[]"] interleave.simps [of "[]" "[]"])
next
  case (3 x y zs)
  then show ?case by (simp add: interleave.simps [of "x # y # zs" "[]"])
qed

lemma interleave_one_other: "interleave [x] (r # rs) = x # r # rs"
  by (simp add: interleave.simps [of "[x]" "r # rs"] interleave_no_others)

lemma interleave_group:
  "interleave (x # y # os) (r # rs) = x # y # r # interleave os rs"
  by (simp add: interleave.simps [of "x # y # os" "r # rs"])

lemma restPattern_groupsPattern: "restPattern rs \<Longrightarrow> groupsPattern rs"
  by (induction rs rule: groupsPattern.induct) (auto simp add: restPattern_def)

lemma groupsPattern_others:
  "\<forall>x \<in> set xs. \<not> P x \<Longrightarrow> groupsPattern (map P xs)"
  by (rule restPattern_groupsPattern) (simp add: restPattern_def list_all_iff)

lemma groupsPattern_revisions:
  "\<forall>x \<in> set xs. P x \<Longrightarrow> groupsPattern (map P xs)"
  by (rule restPattern_groupsPattern) (simp add: restPattern_def list_all_iff)

lemma groupsPattern_interleave:
  assumes "\<forall>x \<in> set os. \<not> P x" "\<forall>x \<in> set rs. P x"
  shows "groupsPattern (map P (interleave os rs))"
  using assms
proof (induction os arbitrary: rs rule: induct_list012)
  case 1
  then show ?case by (simp add: interleave_no_others groupsPattern_revisions)
next
  case (2 x)
  show ?case
  proof (cases rs)
    case Nil
    have "groupsPattern (map P [x])"
      using 2(1) by (rule groupsPattern_others)
    then show ?thesis
      unfolding Nil interleave_no_revisions .
  next
    case (Cons r rs')
    have "restPattern (map P (x # r # rs'))"
      using 2 Cons by (simp add: restPattern_def list_all_iff)
    then show ?thesis
      unfolding Cons interleave_one_other by (rule restPattern_groupsPattern)
  qed
next
  case (3 x y zs)
  show ?case
  proof (cases rs)
    case Nil
    have "groupsPattern (map P (x # y # zs))"
      using 3(3) by (rule groupsPattern_others)
    then show ?thesis
      unfolding Nil interleave_no_revisions .
  next
    case (Cons r rs')
    have "groupsPattern (map P (interleave zs rs'))"
      using 3 Cons by simp
    moreover have "P x = False" "P y = False" "P r = True"
      using 3 Cons by simp_all
    ultimately show ?thesis
      unfolding Cons interleave_group by simp
  qed
qed

lemma interleaved_interleave:
  "interleaved (interleave (filter (\<lambda>s. stype s \<noteq> revision) xs)
                           (filter (\<lambda>s. stype s = revision) xs))"
  unfolding interleaved_def by (rule groupsPattern_interleave) simp_all

text \<open>The order that puts all revision sessions first is not interleaved.\<close>

lemma revisions_first_not_interleaved:
  "\<not> groupsPattern [True, False]" "\<not> groupsPattern [True, True, False, False, False]"
  by (simp_all add: restPattern_def)

lemma filter_all_false: "list_all (\<lambda>r. r = False) (map P xs) \<Longrightarrow> filter P xs = [] \<and> filter (\<lambda>x. \<not> P x) xs = xs"
  by (induction xs) auto

lemma filter_all_true: "list_all (\<lambda>r. r = True) (map P xs) \<Longrightarrow> filter P xs = xs \<and> filter (\<lambda>x. \<not> P x) xs = []"
  by (induction xs) auto

lemma restPattern_interleave:
  assumes "restPattern (map P xs)"
  shows "interleave (filter (\<lambda>x. \<not> P x) xs) (filter P xs) = xs"
proof -
  consider "list_all (\<lambda>r. r = False) (map P xs)" | "list_all (\<lambda>r. r = True) (map P xs)"
    | x rest where "xs = x # rest" "\<not> P x" "list_all (\<lambda>r. r = True) (map P rest)"
    using assms by (auto simp add: restPattern_def split: list.splits)
  then show ?thesis
  proof cases
    case 1
    then show ?thesis by (simp add: filter_all_false interleave_no_revisions)
  next
    case 2
    then show ?thesis by (simp add: filter_all_true interleave_no_others)
  next
    case 3
    then show ?thesis
      by (cases rest) (simp_all add: filter_all_true interleave_no_revisions interleave_one_other)
  qed
qed

lemma groupsPattern_cases:
  "groupsPattern bs \<Longrightarrow>
     (\<exists>rest. bs = False # False # True # rest \<and> groupsPattern rest) \<or> restPattern bs"
  by (cases bs rule: groupsPattern.cases) simp_all

text \<open>
  Conversely, a list that shows the pattern is the interleaving of its own two kinds:
  the pattern and the order within each kind fix the whole schedule.
\<close>

lemma groupsPattern_interleave_partition:
  "groupsPattern (map P xs) \<Longrightarrow> interleave (filter (\<lambda>x. \<not> P x) xs) (filter P xs) = xs"
proof (induction xs rule: length_induct)
  case (1 xs)
  from groupsPattern_cases [OF "1.prems"] show ?case
  proof
    assume "\<exists>rest. map P xs = False # False # True # rest \<and> groupsPattern rest"
    then obtain x y z xs' where xs: "xs = x # y # z # xs'" "\<not> P x" "\<not> P y" "P z"
      and rest: "groupsPattern (map P xs')"
      by (auto simp add: map_eq_Cons_conv)
    have "length xs' < length xs" using xs(1) by simp
    with "1.IH" rest have "interleave (filter (\<lambda>x. \<not> P x) xs') (filter P xs') = xs'"
      by blast
    with xs show ?thesis by (simp add: interleave_group)
  next
    assume "restPattern (map P xs)"
    then show ?thesis by (rule restPattern_interleave)
  qed
qed

text \<open>A schedule with all its revision sessions first and the others after is not interleaved.\<close>

lemma revisions_then_others_not_interleaved:
  assumes "rs \<noteq> []" "os \<noteq> []" "\<forall>r \<in> set rs. stype r = revision" "\<forall>x \<in> set os. stype x \<noteq> revision"
  shows "\<not> interleaved (rs @ os)"
proof -
  obtain r rs' where rs: "rs = r # rs'" using assms(1) by (cases rs) auto
  obtain x os' where os: "os = x # os'" using assms(2) by (cases os) auto
  have r: "stype r = revision" and x: "stype x \<noteq> revision" using assms(3,4) rs os by simp_all
  show ?thesis
    unfolding interleaved_def rs os using r x
    by (simp add: restPattern_def)
qed

section \<open>Properties of the schedule and of the priority\<close>


lemmas priority_defs = calculateTopicPriority_def totalScore_def STRENGTH_SCORES_def urgencyOf_def
  recencyOf_def daysSince_def completionRate_def priorityReasons_def js_round_def

lemma priority_studiedTopic:
  "calculateTopicPriority 1701728000000 studiedTopic weak 30 =
     \<lparr>score = 95,
      reasons = [''Weak subject needs attention'', ''Exam approaching soon'',
                 ''Low confidence - needs more practice'', ''Due for revision'']\<rparr>"
  by (simp add: priority_defs studiedTopic_def)

lemma priority_studiedTopic_early:
  "calculateTopicPriority 1700003600000 studiedTopic weak 30 =
     \<lparr>score = 84,
      reasons = [''Weak subject needs attention'', ''Exam approaching soon'',
                 ''Low confidence - needs more practice'']\<rparr>"
  by (simp add: priority_defs studiedTopic_def)

lemma priority_newTopic:
  "calculateTopicPriority 1701728000000 newTopic strong 30 =
     \<lparr>score = 49, reasons = [''Exam approaching soon'', ''Never studied before'']\<rparr>"
  by (simp add: priority_defs newTopic_def)

lemma schedule_weakSubject:
  "generateDailySchedule 1701728000000 [weakSubject] 60 25 5 30 =
     [\<lparr>topicId = ''t1'', topicName = ''Algebra'', subjectName = ''Maths'',
       subjectColor = ''red'', stype = revision, durationMinutes = 30, priorityScore = 95,
       reason = ''Weak subject needs attention''\<rparr>]"
  by (simp add: generateDailySchedule_def topicsWithPriority_def sortByPriority_def
      priority_studiedTopic weakSubject_def chooseSession_def sessionOf_def firstReason_def Let_def)
     (simp add: studiedTopic_def)

lemma schedule_both:
  "generateDailySchedule 1701728000000 [weakSubject, strongSubject] 120 25 5 30 =
     [\<lparr>topicId = ''t1'', topicName = ''Algebra'', subjectName = ''Maths'',
       subjectColor = ''red'', stype = revision, durationMinutes = 30, priorityScore = 95,
       reason = ''Weak subject needs attention''\<rparr>,
      \<lparr>topicId = ''t2'', topicName = ''History'', subjectName = ''Arts'',
       subjectColor = ''blue'', stype = learning, durationMinutes = 60, priorityScore = 49,
       reason = ''Exam approaching soon''\<rparr>]"
  by (simp add: generateDailySchedule_def topicsWithPriority_def sortByPriority_def
      priority_studiedTopic priority_newTopic weakSubject_def strongSubject_def
      chooseSession_def sessionOf_def firstReason_def Let_def)
     (simp add: studiedTopic_def newTopic_def)

lemma interleave_one_one: "interleave [x] [y] = [x, y]"
  by (simp add: interleave.simps [of "[x]" "[y]"] interleave.simps [of "[]" "[]"])

text \<open>
  Claim C1, as stated, at a concrete input: one topic that was studied before, a budget
  of 60 minutes and pomodoros of 25 + 5 minutes. The topic gets a revision session of
  30 minutes, above \<open>floor(60 * 0.40) = 24\<close>.
\<close>
theorem C1_revision_time_exceeds_budget:
  "\<not> revisionTime (generateDailySchedule 1701728000000 [weakSubject] 60 25 5 30)
       \<le> of_int \<lfloor>60 * (4 / 10) :: real\<rfloor>"
  by (simp add: schedule_weakSubject revisionTime_def)

text \<open>
  Claim C1, amended: in the schedule of \<open>generateDailySchedule\<close> the total duration of
  the sessions of type revision is 0 or lies below
  \<open>availableMinutes * 0.3 + (pomodoroWorkMinutes + pomodoroBreakMinutes)\<close>: a revision
  session is started only while the revision time allocated so far is below the target
  of 30 percent, and it lasts at most one session duration.
\<close>
theorem C1_revision_time_bound:
  "revisionTime (generateDailySchedule now subjects a w b d) = 0
   \<or> revisionTime (generateDailySchedule now subjects a w b d) < a * (3 / 10) + (w + b)"
  using allocate_revision_bound [of a w b
      "\<lparr>remainingMinutes = a, learningAllocated = 0, revisionAllocated = 0, recallAllocated = 0\<rparr>"
      "sortByPriority (topicsWithPriority now subjects d)"]
  by (simp add: generateDailySchedule_def)

text \<open>
  Claim C2, as stated, at a concrete input: the studied topic of the weak subject scores
  95 and gets a revision session, the new topic of the strong subject scores 49 and
  gets a learning session. The schedule is revision, learning: priority order, not the
  interleaved order (learning, revision).
\<close>
theorem C2_not_interleaved:
  "map stype (generateDailySchedule 1701728000000 [weakSubject, strongSubject] 120 25 5 30)
     = [revision, learning]
   \<and> \<not> interleaved (generateDailySchedule 1701728000000 [weakSubject, strongSubject] 120 25 5 30)"
  by (simp add: schedule_both interleaved_def restPattern_def)

text \<open>
  Claim C3, as stated, at a concrete input: with no subjects and a budget of -1 minute
  the schedule is empty, and the sum of its durations, 0, is above the budget.
\<close>
theorem C3_negative_budget:
  "generateDailySchedule 1701728000000 [] (- 1) 25 5 30 = []
   \<and> \<not> totalTime (generateDailySchedule 1701728000000 [] (- 1) 25 5 30) \<le> - 1"
  by (simp add: generateDailySchedule_def topicsWithPriority_def sortByPriority_def
      totalTime_def)

text \<open>
  Claim C3, amended: in the schedule of \<open>generateDailySchedule\<close> the duration of every
  session is at most the budget that remained when it was scheduled, which is
  \<open>availableMinutes\<close> less the durations of the sessions before it; and the durations
  of all sessions sum to at most \<open>availableMinutes\<close> whenever \<open>availableMinutes\<close> is not
  negative or at least one session is scheduled.
\<close>
theorem C3_sessions_fit_budget:
  "(\<forall>i < length (generateDailySchedule now subjects a w b d).
       durationMinutes (generateDailySchedule now subjects a w b d ! i)
         \<le> a - totalTime (take i (generateDailySchedule now subjects a w b d)))
   \<and> (0 \<le> a \<or> generateDailySchedule now subjects a w b d \<noteq> []
        \<longrightarrow> totalTime (generateDailySchedule now subjects a w b d) \<le> a)"
proof -
  let ?st = "\<lparr>remainingMinutes = a, learningAllocated = 0, revisionAllocated = 0, recallAllocated = 0\<rparr>"
  let ?cs = "sortByPriority (topicsWithPriority now subjects d)"
  have eq: "generateDailySchedule now subjects a w b d = allocate a w b ?st ?cs"
    by (simp add: generateDailySchedule_def)
  have "\<forall>i < length (allocate a w b ?st ?cs).
          durationMinutes (allocate a w b ?st ?cs ! i) \<le> a - totalTime (take i (allocate a w b ?st ?cs))"
    using allocate_within_remaining [of _ a w b ?st ?cs] by simp
  moreover have "totalTime (allocate a w b ?st ?cs) \<le> a" if "0 \<le> a \<or> allocate a w b ?st ?cs \<noteq> []"
  proof (cases "allocate a w b ?st ?cs = []")
    case True
    with that show ?thesis by (simp add: totalTime_Nil)
  next
    case False
    from allocate_total [OF this] show ?thesis by simp
  qed
  ultimately show ?thesis unfolding eq by blast
qed

theorem C3_sessions_fit_budget_witness:
  "durationMinutes (generateDailySchedule 1701728000000 [weakSubject, strongSubject] 120 25 5 30 ! 1)
     \<le> 120 - totalTime (take 1 (generateDailySchedule 1701728000000 [weakSubject, strongSubject] 120 25 5 30))
   \<and> (0::real) \<le> 120
   \<and> totalTime (generateDailySchedule 1701728000000 [weakSubject, strongSubject] 120 25 5 30) \<le> 120"
proof -
  have "(1::nat) < length (generateDailySchedule 1701728000000 [weakSubject, strongSubject] 120 25 5 30)"
    by (simp add: schedule_both)
  with C3_sessions_fit_budget [of 1701728000000 "[weakSubject, strongSubject]" 120 25 5 30]
  show ?thesis by simp
qed

text \<open>
  Claim C4, as stated, at a concrete input: two calls with the same topic, strength and
  days until the exam, one an hour and one twenty days after the topic was studied,
  return different results. The function reads \<open>Date.now()\<close> itself.
\<close>
theorem C4_priority_depends_on_clock:
  "calculateTopicPriority 1700003600000 studiedTopic weak 30
     \<noteq> calculateTopicPriority 1701728000000 studiedTopic weak 30"
  by (simp add: priority_studiedTopic priority_studiedTopic_early)

lemma calculateTopicPriority_clock:
  assumes "sameDaysSinceStudy now1 now2 t"
  shows "calculateTopicPriority now1 t s d = calculateTopicPriority now2 t s d"
  using assms
  by (cases "last_studied_at t")
     (simp_all add: sameDaysSinceStudy_def calculateTopicPriority_def totalScore_def
        recencyOf_def priorityReasons_def)

lemma topicsWithPriority_clock:
  assumes "\<forall>s \<in> set subjects. \<forall>t \<in> set (topicsOf s). sameDaysSinceStudy now1 now2 t"
  shows "topicsWithPriority now1 subjects d = topicsWithPriority now2 subjects d"
proof -
  have inner: "map (\<lambda>t. \<lparr>topic = t, subject = s,
                   priority = calculateTopicPriority now1 t (strength_of s) d\<rparr>)
            (filter (\<lambda>t. \<not> is_completed t) (case topics s of None \<Rightarrow> [] | Some ts \<Rightarrow> ts))
      = map (\<lambda>t. \<lparr>topic = t, subject = s,
                   priority = calculateTopicPriority now2 t (strength_of s) d\<rparr>)
            (filter (\<lambda>t. \<not> is_completed t) (case topics s of None \<Rightarrow> [] | Some ts \<Rightarrow> ts))"
    if "s \<in> set subjects" for s
  proof (rule map_cong [OF refl])
    fix t assume "t \<in> set (filter (\<lambda>t. \<not> is_completed t) (case topics s of None \<Rightarrow> [] | Some ts \<Rightarrow> ts))"
    then have "t \<in> set (topicsOf s)" by (simp add: topicsOf_def)
    with assms that have "sameDaysSinceStudy now1 now2 t"
      by blast
    then show "\<lparr>topic = t, subject = s, priority = calculateTopicPriority now1 t (strength_of s) d\<rparr>
       = \<lparr>topic = t, subject = s, priority = calculateTopicPriority now2 t (strength_of s) d\<rparr>"
      using calculateTopicPriority_clock [of now1 now2 t "strength_of s" d] by simp
  qed
  have "map (\<lambda>s. map (\<lambda>t. \<lparr>topic = t, subject = s,
                   priority = calculateTopicPriority now1 t (strength_of s) d\<rparr>)
            (filter (\<lambda>t. \<not> is_completed t) (case topics s of None \<Rightarrow> [] | Some ts \<Rightarrow> ts))) subjects
     = map (\<lambda>s. map (\<lambda>t. \<lparr>topic = t, subject = s,
                   priority = calculateTopicPriority now2 t (strength_of s) d\<rparr>)
            (filter (\<lambda>t. \<not> is_completed t) (case topics s of None \<Rightarrow> [] | Some ts \<Rightarrow> ts))) subjects"
    by (rule map_cong [OF refl]) (rule inner)
  then show ?thesis
    unfolding topicsWithPriority_def by (rule arg_cong)
qed

text \<open>
  Claim C4, amended: \<open>calculateTopicPriority\<close> is determined by its three arguments and
  the clock it reads. Two calls with the same arguments return the same result when
  the topic was never studied or both clock readings show the same whole number of
  days since \<open>last_studied_at\<close>; \<open>generateDailySchedule\<close> returns the same schedule at
  two clock readings for which that holds of every topic.
\<close>
theorem C4_deterministic_given_clock:
  "(sameDaysSinceStudy now1 now2 t \<longrightarrow>
      calculateTopicPriority now1 t s d = calculateTopicPriority now2 t s d)
   \<and> ((\<forall>sub \<in> set subjects. \<forall>u \<in> set (topicsOf sub). sameDaysSinceStudy now1 now2 u) \<longrightarrow>
      generateDailySchedule now1 subjects a w b d = generateDailySchedule now2 subjects a w b d)"
  using calculateTopicPriority_clock [of now1 now2 t s d]
    topicsWithPriority_clock [of subjects now1 now2 d]
  by (simp add: generateDailySchedule_def)

theorem C4_deterministic_given_clock_witness:
  "sameDaysSinceStudy 1700003600000 1700007200000 studiedTopic
   \<and> calculateTopicPriority 1700003600000 studiedTopic weak 30
       = calculateTopicPriority 1700007200000 studiedTopic weak 30
   \<and> generateDailySchedule 1700003600000 [weakSubject] 60 25 5 30
       = generateDailySchedule 1700007200000 [weakSubject] 60 25 5 30"
proof -
  have s: "sameDaysSinceStudy 1700003600000 1700007200000 studiedTopic"
    by (simp add: sameDaysSinceStudy_def studiedTopic_def daysSince_def)
  then have "\<forall>sub \<in> set [weakSubject]. \<forall>u \<in> set (topicsOf sub).
      sameDaysSinceStudy 1700003600000 1700007200000 u"
    by (simp add: weakSubject_def topicsOf_def)
  with s C4_deterministic_given_clock [of 1700003600000 1700007200000 studiedTopic weak 30
      "[weakSubject]" 60 25 5]
  show ?thesis by blast
qed

text \<open>
  Claim C2, amended: the schedule of \<open>generateDailySchedule\<close> in
  \<open>src/lib/study-algorithm.ts\<close> is in priority order, its scores never increase, and has
  no interleaving step. The schedule of the \<open>generateDailySchedule\<close> of the
  revision-aware variant is in the interleaved order: groups of two other sessions and
  one revision session, then the rest of the kind that is left, with the other
  sessions and the revision sessions each in the order in which they were scheduled.
\<close>
theorem C2_schedule_order:
  "priorityOrdered (generateDailySchedule now subjects a w b d)
   \<and> interleaved (generateDailySchedule_ra toStr now subjects a w b d)
   \<and> filter (\<lambda>s. stype s \<noteq> revision) (generateDailySchedule_ra toStr now subjects a w b d)
       = filter (\<lambda>s. stype s \<noteq> revision) (accumulated_ra toStr now subjects a w b d)
   \<and> filter (\<lambda>s. stype s = revision) (generateDailySchedule_ra toStr now subjects a w b d)
       = filter (\<lambda>s. stype s = revision) (accumulated_ra toStr now subjects a w b d)"
proof -
  let ?acc = "accumulated_ra toStr now subjects a w b d"
  let ?os = "filter (\<lambda>s. stype s \<noteq> revision) ?acc"
  let ?rs = "filter (\<lambda>s. stype s = revision) ?acc"
  have eq: "generateDailySchedule_ra toStr now subjects a w b d = interleave ?os ?rs"
    by (simp add: generateDailySchedule_ra_def Let_def)
  have 1: "priorityOrdered (generateDailySchedule now subjects a w b d)"
    unfolding generateDailySchedule_def
    by (rule allocate_priorityOrdered) (rule sortByPriority_descending)
  have 2: "interleaved (interleave ?os ?rs)"
    by (rule interleaved_interleave)
  have o: "\<forall>x \<in> set ?os. \<not> stype x = revision" and r: "\<forall>x \<in> set ?rs. stype x = revision"
    by simp_all
  have 3: "filter (\<lambda>s. \<not> stype s = revision) (interleave ?os ?rs) = ?os"
    and 4: "filter (\<lambda>s. stype s = revision) (interleave ?os ?rs) = ?rs"
    using interleave_filter [OF o r] by blast+
  from 1 2 3 4 show ?thesis
    unfolding eq by (simp only: simp_thms)
qed

section \<open>Properties of the recovery after missed sessions\<close>


lemmas js_defs = rebalanceAfterMissed_def js_le_def js_lt_def js_div_def js_mul_def Math_min_def
  signed_zero_def signed_inf_def Let_def

text \<open>
  Claim C8 says that \<open>rebalanceAfterMissed\<close> returns finite numbers for every input. At
  \<open>missedMinutes = 0\<close> with 5 days left and 180 daily minutes the ideal number of days
  is \<open>ceil(0 / 45) = 0\<close>, so the extra minutes are \<open>round(0 / 0)\<close>, not a number, for 0
  days; with \<open>dailyStudyMinutes = 0\<close> as well, both results are not a number.
\<close>
theorem C8_rebalance_not_a_number:
  "extraMinutesPerDay (rebalanceAfterMissed toStr (Fin 0) (Fin 5) (Fin 180) (Fin 25)) = NaN
   \<and> daysToRecover (rebalanceAfterMissed toStr (Fin 0) (Fin 5) (Fin 180) (Fin 25)) = Fin 0
   \<and> extraMinutesPerDay (rebalanceAfterMissed toStr (Fin 0) (Fin 5) (Fin 0) (Fin 25)) = NaN
   \<and> daysToRecover (rebalanceAfterMissed toStr (Fin 0) (Fin 5) (Fin 0) (Fin 25)) = NaN"
  by (simp add: js_defs)

lemma rebalance_scenario:
  "extraMinutesPerDay (rebalanceAfterMissed toStr (Fin 300) (Fin 2) (Fin 180) (Fin 25)) = Fin 45
   \<and> daysToRecover (rebalanceAfterMissed toStr (Fin 300) (Fin 2) (Fin 180) (Fin 25)) = Fin 2"
  by (simp add: js_defs)

lemma rebalance_no_days:
  "js_le r (Fin 0) \<Longrightarrow>
   extraMinutesPerDay (rebalanceAfterMissed toStr m r dm p) = Fin 0
   \<and> daysToRecover (rebalanceAfterMissed toStr m r dm p) = Fin 0"
  by (simp add: rebalanceAfterMissed_def)

lemma Math_round_finite: "is_finite x \<Longrightarrow> is_finite (Math_round x)"
  by (cases x) simp_all

lemma Math_min_finite: "is_finite x \<Longrightarrow> is_finite y \<Longrightarrow> is_finite (Math_min x y)"
  by (cases x; cases y) (simp_all add: Math_min_def)

lemma rebalanceAfterMissed_finite:
  assumes "0 < m" "0 < r" "1 \<le> \<lfloor>dm * (p / 100) + 1 / 2\<rfloor>"
  shows "is_finite (extraMinutesPerDay (rebalanceAfterMissed toStr (Fin m) (Fin r) (Fin dm) (Fin p)))
       \<and> is_finite (daysToRecover (rebalanceAfterMissed toStr (Fin m) (Fin r) (Fin dm) (Fin p)))"
proof -
  define k where "k = \<lfloor>dm * (p / 100) + 1 / 2\<rfloor>"
  have k: "1 \<le> k" using assms(3) by (simp add: k_def)
  have nz: "dm \<noteq> 0" "p \<noteq> 0"
    using assms(3) by auto
  have pos: "\<not> (dm * p / 100 < 0 \<and> - (1 / 2) \<le> dm * p / 100)"
    using assms(3) by (auto simp add: le_floor_iff)
  have maxExtra: "Math_round (js_mul (Fin dm) (js_div (Fin p) (Fin 100))) = Fin (of_int k)"
    using nz pos by (auto simp add: js_mul_def js_div_def k_def)
  have q: "0 < m / of_int k" using assms(1) k by simp
  have ideal: "Math_ceil (js_div (Fin m) (Fin (of_int k))) = Fin (of_int \<lceil>m / of_int k\<rceil>)"
  proof -
    have "\<not> m / of_int k < 0" using q by linarith
    moreover have "m \<noteq> 0" "real_of_int k \<noteq> 0" using assms(1) k by simp_all
    ultimately show ?thesis by (simp add: js_div_def)
  qed
  have c: "1 \<le> \<lceil>m / of_int k\<rceil>" using q by (simp add: less_ceiling_iff int_one_le_iff_zero_less)
  define days where "days = Math_min (Fin (of_int \<lceil>m / of_int k\<rceil>)) (Fin r)"
  have days: "\<exists>x. days = Fin x \<and> 0 < x"
    using c assms(2) by (auto simp add: days_def Math_min_def js_lt_def)
  then obtain x where x: "days = Fin x" "0 < x" by blast
  have extra: "is_finite (Math_round (js_div (Fin m) days))"
    using x assms(1) by (intro Math_round_finite) (simp add: js_div_def)
  have res: "rebalanceAfterMissed toStr (Fin m) (Fin r) (Fin dm) (Fin p) =
     \<lparr>extraMinutesPerDay = Math_min (Math_round (js_div (Fin m) days)) (Fin (of_int k)),
      daysToRecover = days,
      message_r = ''Adding '' @ toStr (Math_min (Math_round (js_div (Fin m) days)) (Fin (of_int k)))
         @ '' extra minutes for '' @ toStr days @ '' days to catch up.''\<rparr>"
    using assms(2) by (simp add: rebalanceAfterMissed_def Let_def maxExtra ideal days_def js_le_def)
  show ?thesis
    unfolding res using extra x by (simp add: Math_min_finite)
qed

section \<open>Properties of the revision-aware variant\<close>


lemma revisionSession_sel [simp]:
  "stype (revisionSession c ty d) = ty" "durationMinutes (revisionSession c ty d) = d"
  by (simp_all add: revisionSession_def)

lemma learningSession_sel [simp]:
  "stype (learningSession c d) = learning" "durationMinutes (learningSession c d) = d"
  by (simp_all add: learningSession_def)

lemma revisionTime_Nil: "revisionTime [] = 0"
  by (simp add: revisionTime_def)

lemma revisionTime_append: "revisionTime (xs @ ys) = revisionTime xs + revisionTime ys"
  by (simp add: revisionTime_def)

lemma totalTime_append: "totalTime (xs @ ys) = totalTime xs + totalTime ys"
  by (simp add: totalTime_def)

lemma allocateRevisions_step:
  assumes "\<not> remaining < w" "\<not> budget \<le> allocated"
  obtains ty dd alloc' where
    "allocateRevisions w b budget remaining allocated (c # cs) =
       (revisionSession c ty dd # fst (allocateRevisions w b budget (remaining - dd) alloc' cs),
        snd (allocateRevisions w b budget (remaining - dd) alloc' cs))"
    "dd \<le> remaining"
    "ty = revision \<Longrightarrow> dd \<le> w + b \<and> alloc' = allocated + dd"
    "ty \<noteq> revision \<Longrightarrow> alloc' = allocated"
proof (cases "revision_count (topic_r c) \<ge> 3 \<and> confidence_level (topic_r c) \<ge> 3")
  case True
  show ?thesis
    by (rule that [of recall "min w remaining" allocated]) (use assms True in \<open>simp_all add: Let_def\<close>)
next
  case False
  then have f: "(revision_count (topic_r c) \<ge> 3 \<and> confidence_level (topic_r c) \<ge> 3) = False"
    by simp
  show ?thesis
    by (rule that [of revision "min (w + b) remaining" "allocated + min (w + b) remaining"])
       (use assms in \<open>simp_all add: Let_def f\<close>)
qed

lemma allocateRevisions_stop:
  assumes "remaining < w \<or> budget \<le> allocated"
  shows "allocateRevisions w b budget remaining allocated (c # cs) = ([], remaining)"
  using assms by auto

lemma allocateRevisions_remaining:
  "snd (allocateRevisions w b budget remaining allocated cs)
     = remaining - totalTime (fst (allocateRevisions w b budget remaining allocated cs))"
proof (induction cs arbitrary: remaining allocated)
  case Nil
  then show ?case by (simp add: totalTime_Nil)
next
  case (Cons c cs)
  show ?case
  proof (cases "remaining < w \<or> budget \<le> allocated")
    case True
    show ?thesis
      unfolding allocateRevisions_stop [OF True] by (simp add: totalTime_Nil)
  next
    case False
    then have g: "\<not> remaining < w" "\<not> budget \<le> allocated" by simp_all
    from allocateRevisions_step [OF g, of b c cs] obtain ty dd alloc' where
      unfold: "allocateRevisions w b budget remaining allocated (c # cs) =
       (revisionSession c ty dd # fst (allocateRevisions w b budget (remaining - dd) alloc' cs),
        snd (allocateRevisions w b budget (remaining - dd) alloc' cs))"
      by metis
    show ?thesis
      unfolding unfold using Cons.IH [of "remaining - dd" alloc']
      by (simp add: totalTime_Cons)
  qed
qed

lemma allocateRevisions_within_remaining:
  "i < length (fst (allocateRevisions w b budget remaining allocated cs)) \<Longrightarrow>
     durationMinutes (fst (allocateRevisions w b budget remaining allocated cs) ! i)
       \<le> remaining - totalTime (take i (fst (allocateRevisions w b budget remaining allocated cs)))"
proof (induction cs arbitrary: remaining allocated i)
  case Nil
  then show ?case by simp
next
  case (Cons c cs)
  show ?case
  proof (cases "remaining < w \<or> budget \<le> allocated")
    case True
    from Cons.prems show ?thesis
      unfolding allocateRevisions_stop [OF True] by simp
  next
    case False
    then have g: "\<not> remaining < w" "\<not> budget \<le> allocated" by simp_all
    from allocateRevisions_step [OF g, of b c cs] obtain ty dd alloc' where
      unfold: "allocateRevisions w b budget remaining allocated (c # cs) =
       (revisionSession c ty dd # fst (allocateRevisions w b budget (remaining - dd) alloc' cs),
        snd (allocateRevisions w b budget (remaining - dd) alloc' cs))"
      and dd: "dd \<le> remaining"
      by metis
    show ?thesis
    proof (cases i)
      case 0
      with dd show ?thesis unfolding unfold by (simp add: totalTime_Nil)
    next
      case (Suc j)
      with Cons.prems
      have "j < length (fst (allocateRevisions w b budget (remaining - dd) alloc' cs))"
        unfolding unfold by simp
      from Cons.IH [OF this] Suc show ?thesis
        unfolding unfold by (simp add: totalTime_Cons)
    qed
  qed
qed

lemma allocateRevisions_revision_bound:
  "revisionTime (fst (allocateRevisions w b budget remaining allocated cs)) = 0
   \<or> allocated + revisionTime (fst (allocateRevisions w b budget remaining allocated cs))
       < budget + (w + b)"
proof (induction cs arbitrary: remaining allocated)
  case Nil
  then show ?case by (simp add: revisionTime_Nil)
next
  case (Cons c cs)
  show ?case
  proof (cases "remaining < w \<or> budget \<le> allocated")
    case True
    show ?thesis
      unfolding allocateRevisions_stop [OF True] by (simp add: revisionTime_Nil)
  next
    case False
    then have g: "\<not> remaining < w" "\<not> budget \<le> allocated" by simp_all
    from allocateRevisions_step [OF g, of b c cs] obtain ty dd alloc' where
      unfold: "allocateRevisions w b budget remaining allocated (c # cs) =
       (revisionSession c ty dd # fst (allocateRevisions w b budget (remaining - dd) alloc' cs),
        snd (allocateRevisions w b budget (remaining - dd) alloc' cs))"
      and rev: "ty = revision \<Longrightarrow> dd \<le> w + b \<and> alloc' = allocated + dd"
      and other: "ty \<noteq> revision \<Longrightarrow> alloc' = allocated"
      by metis
    let ?rest = "fst (allocateRevisions w b budget (remaining - dd) alloc' cs)"
    have ih: "revisionTime ?rest = 0 \<or> alloc' + revisionTime ?rest < budget + (w + b)"
      by (rule Cons.IH)
    show ?thesis
    proof (cases "ty = revision")
      case True
      with rev have "dd \<le> w + b" "alloc' = allocated + dd" by simp_all
      with ih g True show ?thesis
        unfolding unfold by (auto simp add: revisionTime_Cons)
    next
      case False
      with other have "alloc' = allocated" by simp
      with ih False show ?thesis
        unfolding unfold by (auto simp add: revisionTime_Cons)
    qed
  qed
qed

lemma allocateLearning_within_remaining:
  "i < length (allocateLearning w b remaining cs) \<Longrightarrow>
     durationMinutes (allocateLearning w b remaining cs ! i)
       \<le> remaining - totalTime (take i (allocateLearning w b remaining cs))"
proof (induction cs arbitrary: remaining i)
  case Nil
  then show ?case by simp
next
  case (Cons c cs)
  show ?case
  proof (cases "remaining < w + b")
    case True
    with Cons.prems show ?thesis by simp
  next
    case False
    define dd where "dd = (if last_studied_at (topic_l c) = None
                           then min ((w + b) * 2) remaining else min (w + b) remaining)"
    have unfold: "allocateLearning w b remaining (c # cs)
                    = learningSession c dd # allocateLearning w b (remaining - dd) cs"
      using False by (simp add: dd_def Let_def)
    have dd: "dd \<le> remaining" by (simp add: dd_def)
    show ?thesis
    proof (cases i)
      case 0
      with dd show ?thesis unfolding unfold by (simp add: totalTime_Nil)
    next
      case (Suc j)
      with Cons.prems have "j < length (allocateLearning w b (remaining - dd) cs)"
        unfolding unfold by simp
      from Cons.IH [OF this] Suc show ?thesis
        unfolding unfold by (simp add: totalTime_Cons)
    qed
  qed
qed

lemma allocateLearning_no_revision:
  "revisionTime (allocateLearning w b remaining cs) = 0"
  by (induction cs arbitrary: remaining) (simp_all add: revisionTime_Nil revisionTime_Cons Let_def)

lemma within_remaining_append:
  assumes "\<forall>i < length xs. durationMinutes (xs ! i) \<le> r - totalTime (take i xs)"
    and "\<forall>i < length ys. durationMinutes (ys ! i) \<le> (r - totalTime xs) - totalTime (take i ys)"
  shows "\<forall>i < length (xs @ ys). durationMinutes ((xs @ ys) ! i) \<le> r - totalTime (take i (xs @ ys))"
proof (intro allI impI)
  fix i assume i: "i < length (xs @ ys)"
  show "durationMinutes ((xs @ ys) ! i) \<le> r - totalTime (take i (xs @ ys))"
  proof (cases "i < length xs")
    case True
    with assms(1) show ?thesis by (simp add: nth_append)
  next
    case False
    then have "i - length xs < length ys" using i by simp
    with assms(2) have "durationMinutes (ys ! (i - length xs))
        \<le> (r - totalTime xs) - totalTime (take (i - length xs) ys)" by blast
    with False show ?thesis by (simp add: nth_append totalTime_append)
  qed
qed

lemma within_remaining_total:
  assumes "\<forall>i < length xs. durationMinutes (xs ! i) \<le> r - totalTime (take i xs)"
    and "0 \<le> r \<or> xs \<noteq> []"
  shows "totalTime xs \<le> r"
proof (cases "xs = []")
  case True
  with assms(2) show ?thesis by (simp add: totalTime_Nil)
next
  case False
  then have "length xs - 1 < length xs" by simp
  with assms(1) have "durationMinutes (xs ! (length xs - 1)) \<le> r - totalTime (take (length xs - 1) xs)"
    by blast
  then have "durationMinutes (last xs) \<le> r - totalTime (butlast xs)"
    using False by (simp add: last_conv_nth butlast_conv_take)
  moreover have "totalTime (butlast xs @ [last xs]) = totalTime (butlast xs) + durationMinutes (last xs)"
    by (simp add: totalTime_def)
  ultimately show ?thesis using False by simp
qed

lemma mset_interleave: "mset (interleave os rs) = mset os + mset rs"
proof (induction os rs rule: interleave.induct)
  case (1 others revisions)
  show ?case
  proof (cases "others = [] \<and> revisions = []")
    case True
    then show ?thesis by (simp add: interleave.simps)
  next
    case False
    have "interleave others revisions
            = take 2 others @ take 1 revisions @ interleave (drop 2 others) (drop 1 revisions)"
      by (subst interleave.simps) (simp only: False if_False)
    then have "mset (interleave others revisions)
        = mset (take 2 others) + mset (take 1 revisions) + (mset (drop 2 others) + mset (drop 1 revisions))"
      using "1.IH" [OF False] by simp
    also have "\<dots> = mset (take 2 others @ drop 2 others) + mset (take 1 revisions @ drop 1 revisions)"
      by (simp only: mset_append ac_simps)
    finally show ?thesis by simp
  qed
qed

lemma mset_generateDailySchedule_ra:
  "mset (generateDailySchedule_ra toStr now subjects a w b d)
     = mset (accumulated_ra toStr now subjects a w b d)"
  unfolding generateDailySchedule_ra_def Let_def mset_interleave
  by (simp add: union_commute)

lemma totalTime_image_mset:
  "totalTime xs = sum_mset (image_mset durationMinutes (mset xs))"
  by (metis totalTime_def sum_mset_sum_list mset_map)

lemma totalTime_mset: "mset xs = mset ys \<Longrightarrow> totalTime xs = totalTime ys"
  by (simp add: totalTime_image_mset)

lemma revisionTime_mset: "mset xs = mset ys \<Longrightarrow> revisionTime xs = revisionTime ys"
proof -
  assume "mset xs = mset ys"
  then have "mset (filter (\<lambda>s. stype s = revision) xs) = mset (filter (\<lambda>s. stype s = revision) ys)"
    by (metis mset_filter)
  then have "totalTime (filter (\<lambda>s. stype s = revision) xs) = totalTime (filter (\<lambda>s. stype s = revision) ys)"
    by (rule totalTime_mset)
  then show ?thesis by (simp add: totalTime_def revisionTime_def)
qed

text \<open>
  The revision-aware variant keeps the time budget too: every session fits the minutes
  that remained when it was scheduled, the interleaving only reorders the sessions,
  and their durations sum to at most \<open>availableMinutes\<close>.
\<close>

lemma ra_sessions_fit_budget:
  "(\<forall>i < length (accumulated_ra toStr now subjects a w b d).
       durationMinutes (accumulated_ra toStr now subjects a w b d ! i)
         \<le> a - totalTime (take i (accumulated_ra toStr now subjects a w b d)))
   \<and> mset (generateDailySchedule_ra toStr now subjects a w b d)
       = mset (accumulated_ra toStr now subjects a w b d)
   \<and> (0 \<le> a \<or> generateDailySchedule_ra toStr now subjects a w b d \<noteq> []
        \<longrightarrow> totalTime (generateDailySchedule_ra toStr now subjects a w b d) \<le> a)"
proof -
  let ?ls = "sort_key (\<lambda>c. - score (priority_l c)) (learningTopics toStr now subjects d)"
  let ?rs = "sort_key (\<lambda>c. - score (revisionPriority c)) (revisionTopics toStr now subjects d)"
  let ?first = "allocateRevisions w b (of_int \<lfloor>(a * 40) / 100\<rfloor>) a 0 ?rs"
  let ?second = "allocateLearning w b (snd ?first) ?ls"
  have acc: "accumulated_ra toStr now subjects a w b d = fst ?first @ ?second"
    by (simp add: accumulated_ra_def Let_def)
  have 1: "\<forall>i < length (fst ?first). durationMinutes (fst ?first ! i) \<le> a - totalTime (take i (fst ?first))"
    using allocateRevisions_within_remaining by blast
  have 2: "\<forall>i < length ?second. durationMinutes (?second ! i)
             \<le> (a - totalTime (fst ?first)) - totalTime (take i ?second)"
    using allocateLearning_within_remaining [of _ w b "snd ?first" ?ls]
    by (simp add: allocateRevisions_remaining)
  have fit: "\<forall>i < length (accumulated_ra toStr now subjects a w b d).
       durationMinutes (accumulated_ra toStr now subjects a w b d ! i)
         \<le> a - totalTime (take i (accumulated_ra toStr now subjects a w b d))"
    unfolding acc by (rule within_remaining_append [OF 1 2])
  have m: "mset (generateDailySchedule_ra toStr now subjects a w b d)
       = mset (accumulated_ra toStr now subjects a w b d)"
    by (rule mset_generateDailySchedule_ra)
  have "totalTime (generateDailySchedule_ra toStr now subjects a w b d) \<le> a"
    if "0 \<le> a \<or> generateDailySchedule_ra toStr now subjects a w b d \<noteq> []"
  proof -
    have "generateDailySchedule_ra toStr now subjects a w b d \<noteq> []
            \<Longrightarrow> accumulated_ra toStr now subjects a w b d \<noteq> []"
      using m by (metis mset_zero_iff)
    with that have "0 \<le> a \<or> accumulated_ra toStr now subjects a w b d \<noteq> []" by blast
    from within_remaining_total [OF fit this] totalTime_mset [OF m] show ?thesis by simp
  qed
  with fit m show ?thesis by blast
qed

text \<open>
  In the revision-aware variant a revision session is started only while the revision
  time allocated so far is below the budget \<open>floor(availableMinutes * 40 / 100)\<close>, so
  the revision time stays below the budget plus one session duration.
\<close>

lemma ra_revision_time_bound:
  "revisionTime (generateDailySchedule_ra toStr now subjects a w b d) = 0
   \<or> revisionTime (generateDailySchedule_ra toStr now subjects a w b d)
       < of_int \<lfloor>(a * 40) / 100\<rfloor> + (w + b)"
proof -
  let ?ls = "sort_key (\<lambda>c. - score (priority_l c)) (learningTopics toStr now subjects d)"
  let ?rs = "sort_key (\<lambda>c. - score (revisionPriority c)) (revisionTopics toStr now subjects d)"
  let ?first = "allocateRevisions w b (of_int \<lfloor>(a * 40) / 100\<rfloor>) a 0 ?rs"
  let ?second = "allocateLearning w b (snd ?first) ?ls"
  have acc: "accumulated_ra toStr now subjects a w b d = fst ?first @ ?second"
    by (simp add: accumulated_ra_def Let_def)
  have "revisionTime (generateDailySchedule_ra toStr now subjects a w b d)
          = revisionTime (accumulated_ra toStr now subjects a w b d)"
    by (rule revisionTime_mset [OF mset_generateDailySchedule_ra])
  also have "\<dots> = revisionTime (fst ?first)"
    unfolding acc by (simp add: revisionTime_append allocateLearning_no_revision)
  finally show ?thesis
    using allocateRevisions_revision_bound [of w b "of_int \<lfloor>(a * 40) / 100\<rfloor>" a 0 ?rs]
    by simp
qed

section \<open>The revision-aware variant on the example inputs\<close>


lemmas revision_defs = calculateRevisionPriority_def revisionTotalScore_def revisionReasons_def
  daysSinceRevision_def proximityOf_def checkRevisionEligibility_def

lemma eligibility_studiedTopic:
  "checkRevisionEligibility toStr 1701728000000 studiedTopic 30 =
     \<lparr>isEligible = True,
      reasons_e = [''Low confidence ('' @ toStr 1 @ ''/5)'',
                   ''Not revised in '' @ toStr 20 @ '' days''],
      urgencyScore = 100\<rparr>"
  by (simp add: revision_defs studiedTopic_def daysSince_def Let_def)

lemma eligibility_newTopic:
  "isEligible (checkRevisionEligibility toStr 1701728000000 newTopic 30) = False"
  by (simp add: revision_defs newTopic_def daysSince_def Let_def)

lemma revisionPriority_studiedTopic:
  "calculateRevisionPriority 1701728000000 studiedTopic weak 30 =
     \<lparr>score = 92,
      reasons = [''Overdue for revision'', ''Low confidence - revision critical'',
                 ''Weak subject - extra attention needed'']\<rparr>"
  by (simp add: revision_defs studiedTopic_def daysSince_def STRENGTH_SCORES_def js_round_def Let_def)

lemma ra_schedule_weakSubject:
  "generateDailySchedule_ra toStr 1701728000000 [weakSubject] 60 25 5 30 =
     [\<lparr>topicId = ''t1'', topicName = ''Algebra'', subjectName = ''Maths'',
       subjectColor = ''red'', stype = revision, durationMinutes = 30, priorityScore = 92,
       reason = ''Low confidence ('' @ toStr 1 @ ''/5)'', isRevisionScheduled = True\<rparr>]"
  apply (simp add: generateDailySchedule_ra_def accumulated_ra_def revisionTopics_def
      learningTopics_def openTopics_def weakSubject_def Let_def)
  apply (simp add: eligibility_studiedTopic revisionPriority_studiedTopic)
  apply (simp add: revisionSession_def firstReason_def studiedTopic_def interleave.simps [of "[]"])
  done

lemma revisionTopics_both:
  "revisionTopics toStr 1701728000000 [weakSubject, strongSubject] 30 =
     [\<lparr>topic_r = studiedTopic, subject_r = weakSubject,
       revisionPriority = calculateRevisionPriority 1701728000000 studiedTopic weak 30,
       eligibility = checkRevisionEligibility toStr 1701728000000 studiedTopic 30\<rparr>]"
  by (simp add: revisionTopics_def openTopics_def eligibility_studiedTopic eligibility_newTopic
      weakSubject_def strongSubject_def studiedTopic_def [THEN arg_cong, of is_completed]
      newTopic_def [THEN arg_cong, of is_completed])

lemma learningTopics_both:
  "learningTopics toStr 1701728000000 [weakSubject, strongSubject] 30 =
     [\<lparr>topic_l = newTopic, subject_l = strongSubject,
       priority_l = calculateTopicPriority 1701728000000 newTopic strong 30\<rparr>]"
  by (simp add: learningTopics_def openTopics_def eligibility_studiedTopic eligibility_newTopic
      weakSubject_def strongSubject_def studiedTopic_def [THEN arg_cong, of is_completed]
      newTopic_def [THEN arg_cong, of is_completed])

lemma accumulated_ra_both:
  "accumulated_ra toStr 1701728000000 [weakSubject, strongSubject] 120 25 5 30 =
     [\<lparr>topicId = ''t1'', topicName = ''Algebra'', subjectName = ''Maths'',
       subjectColor = ''red'', stype = revision, durationMinutes = 30, priorityScore = 92,
       reason = ''Low confidence ('' @ toStr 1 @ ''/5)'', isRevisionScheduled = True\<rparr>,
      \<lparr>topicId = ''t2'', topicName = ''History'', subjectName = ''Arts'',
       subjectColor = ''blue'', stype = learning, durationMinutes = 60, priorityScore = 49,
       reason = ''Exam approaching soon'', isRevisionScheduled = False\<rparr>]"
  by (simp add: accumulated_ra_def revisionTopics_both learningTopics_both Let_def
      revisionSession_def learningSession_def firstReason_def eligibility_studiedTopic
      revisionPriority_studiedTopic priority_newTopic)
     (simp add: studiedTopic_def newTopic_def weakSubject_def strongSubject_def)

lemma ra_schedule_both:
  "generateDailySchedule_ra toStr 1701728000000 [weakSubject, strongSubject] 120 25 5 30 =
     [\<lparr>topicId = ''t2'', topicName = ''History'', subjectName = ''Arts'',
       subjectColor = ''blue'', stype = learning, durationMinutes = 60, priorityScore = 49,
       reason = ''Exam approaching soon'', isRevisionScheduled = False\<rparr>,
      \<lparr>topicId = ''t1'', topicName = ''Algebra'', subjectName = ''Maths'',
       subjectColor = ''red'', stype = revision, durationMinutes = 30, priorityScore = 92,
       reason = ''Low confidence ('' @ toStr 1 @ ''/5)'', isRevisionScheduled = True\<rparr>]"
  by (simp add: generateDailySchedule_ra_def accumulated_ra_both interleave_one_one)

text \<open>
  At the input of the counterexample to claim C1 the revision-aware variant also
  schedules one revision session of 30 minutes, above its budget of 24.
\<close>

lemma ra_revision_time_exceeds_budget:
  "revisionTime (generateDailySchedule_ra toStr 1701728000000 [weakSubject] 60 25 5 30) = 30
   \<and> \<lfloor>(60 * 40) / 100 :: real\<rfloor> = 24"
  by (simp add: ra_schedule_weakSubject revisionTime_def)

text \<open>The interleaved schedule of the variant is not in priority order: 49 comes before 92.\<close>

lemma ra_not_priorityOrdered:
  "\<not> priorityOrdered (generateDailySchedule_ra toStr 1701728000000 [weakSubject, strongSubject] 120 25 5 30)"
  by (simp add: ra_schedule_both priorityOrdered_def)


section \<open>The revision summary on an example\<close>

text \<open>
  With the clock at 1700050000000 ms and local time UTC, today runs from 1700006400000
  to 1700092800000: one topic is overdue, one is due today, one within the week, one
  later and one has no revision date.
\<close>

lemma getRevisionSummary_example:
  "getRevisionSummary 0 1700050000000
     [studiedTopic\<lparr>next_revision_at := Some 1699000000000\<rparr>,
      studiedTopic\<lparr>next_revision_at := Some 1700060000000\<rparr>,
      studiedTopic\<lparr>next_revision_at := Some 1700200000000\<rparr>,
      studiedTopic\<lparr>next_revision_at := Some 1800000000000\<rparr>,
      studiedTopic] =
   \<lparr>overdueTopics = [studiedTopic\<lparr>next_revision_at := Some 1699000000000\<rparr>],
    pendingRevisions = [studiedTopic\<lparr>next_revision_at := Some 1700060000000\<rparr>],
    completedThisWeek = [],
    upcomingRevisions = [studiedTopic\<lparr>next_revision_at := Some 1700200000000\<rparr>]\<rparr>"
  by (simp add: getRevisionSummary_def summaryStep_def startOfToday_def endOfToday_def
      studiedTopic_def Let_def)

end
